theory Spec2Isabelle
  imports Complex_Main "HOL-Library.Sublist"
begin

section \<open>Strings of the JavaScript runtime\<close>

text \<open>
  A JavaScript string is a sequence of UTF-16 code units. Chat texts, keywords and
  category names are Thai, so they are lists of code units (natural numbers); a
  literal is written with its code units in hexadecimal. Identifiers that the
  source writes in ASCII only (achievement ids, LINE user ids, date keys) are
  ordinary HOL strings.
\<close>

type_synonym jsstring = "nat list"

definition js :: "string \<Rightarrow> jsstring" where
  "js s = map of_char s"


text \<open>
  \<^verbatim>\<open>\d\<close> of a regular expression: the ten ASCII digits.
\<close>

definition is_digit :: "nat \<Rightarrow> bool" where
  "is_digit c \<longleftrightarrow> 0x30 \<le> c \<and> c \<le> 0x39"

text \<open>
  The line terminators of ECMAScript (LF, CR, LS, PS): the code units that the
  \<^verbatim>\<open>.\<close> of a regular expression does not match.
\<close>

definition is_line_terminator :: "nat \<Rightarrow> bool" where
  "is_line_terminator c \<longleftrightarrow> c = 0x0A \<or> c = 0x0D \<or> c = 0x2028 \<or> c = 0x2029"

text \<open>
  White space and line terminators of ECMAScript: what \<^verbatim>\<open>String.prototype.trim\<close>
  strips and what \<^verbatim>\<open>\s\<close> matches.
\<close>

definition is_space :: "nat \<Rightarrow> bool" where
  "is_space c \<longleftrightarrow>
     c = 0x09 \<or> c = 0x0A \<or> c = 0x0B \<or> c = 0x0C \<or> c = 0x0D \<or> c = 0x20 \<or> c = 0xA0 \<or>
     c = 0x1680 \<or> (0x2000 \<le> c \<and> c \<le> 0x200A) \<or> c = 0x2028 \<or> c = 0x2029 \<or>
     c = 0x202F \<or> c = 0x205F \<or> c = 0x3000 \<or> c = 0xFEFF"

definition trim :: "jsstring \<Rightarrow> jsstring" where
  "trim s = rev (dropWhile is_space (rev (dropWhile is_space s)))"

text \<open>
  Letter case. A code unit of Basic Latin or of the Thai block is \<open>plain\<close>: it is
  a code point of its own, and its lower-case image is fixed by the language
  without the Unicode tables of a runtime version and whatever its neighbours
  are: a capital Latin letter becomes the small one, every other plain code unit
  is kept (Thai has no letter case). \<open>lower_unit\<close> is that image. It is also how
  the \<^verbatim>\<open>i\<close> flag compares a code unit of the text with a plain code unit of a
  pattern: they match when their images are equal.
\<close>

definition plain_unit :: "nat \<Rightarrow> bool" where
  "plain_unit c \<longleftrightarrow> c < 0x80 \<or> (0xE00 \<le> c \<and> c \<le> 0xE7F)"

definition lower_unit :: "nat \<Rightarrow> nat" where
  "lower_unit c = (if 0x41 \<le> c \<and> c \<le> 0x5A then c + 0x20 else c)"

text \<open>\<^verbatim>\<open>s.includes(k)\<close>: \<open>k\<close> occurs in \<open>s\<close> as a contiguous run of code units.\<close>

fun includes_js :: "jsstring \<Rightarrow> jsstring \<Rightarrow> bool" where
  "includes_js [] k = (k = [])"
| "includes_js (c # s) k = (prefix k (c # s) \<or> includes_js s k)"

text \<open>
  \<^verbatim>\<open>s.replace(new RegExp(k, 'g'), '')\<close> for a pattern \<open>k\<close> without syntax characters:
  scanning from the left, every occurrence of \<open>k\<close> is dropped and the scan resumes
  behind it.
\<close>

function replace_all :: "jsstring \<Rightarrow> jsstring \<Rightarrow> jsstring" where
  "replace_all k [] = []"
| "replace_all k (c # s) =
     (if k \<noteq> [] \<and> prefix k (c # s) then replace_all k (drop (length k) (c # s))
      else c # replace_all k s)"
  by pat_completeness auto
termination
  by (relation "measure (\<lambda>(k, s). length s)") auto

text \<open>
  The Number values that an amount can take: \<^verbatim>\<open>NaN\<close>, \<^verbatim>\<open>Infinity\<close>, or a finite
  double, which is a rational number. No negative number and no negative zero
  arises, because no string that is read as a number has a sign.
\<close>

datatype number = NaN | Infinity | Finite rat

text \<open>
  The double nearest to the fraction \<open>a / b\<close> (with \<open>b\<close> positive), ties to the
  even significand, as IEEE 754 rounds. \<open>bits n\<close> is the length of \<open>n\<close> in binary,
  so \<open>a / b\<close> lies between \<open>2 ^ (k - 1)\<close> and \<open>2 ^ (k + 1)\<close> for the difference
  \<open>k\<close> of the two lengths, and one comparison gives the binary exponent \<open>e2\<close> of
  \<open>a / b\<close>. A double has 53 significant bits and no bit below \<open>2 ^ -1074\<close>, so
  the result is a whole multiple \<open>m\<close> of \<open>2 ^ p\<close> for \<open>p\<close> the larger of \<open>e2 - 52\<close>
  and \<open>-1074\<close>; a result of \<open>2 ^ 1024\<close> or more is \<^verbatim>\<open>Infinity\<close>.
\<close>

fun bits :: "nat \<Rightarrow> nat" where
  "bits n = (if n = 0 then 0 else Suc (bits (n div 2)))"

declare bits.simps [simp del]

definition round_half_even :: "nat \<Rightarrow> nat \<Rightarrow> nat" where
  "round_half_even num den =
     (let q = num div den; r = num mod den
      in if 2 * r < den then q
         else if den < 2 * r then q + 1
         else if even q then q else q + 1)"

definition double_of_fraction :: "nat \<Rightarrow> nat \<Rightarrow> number" where
  "double_of_fraction a b =
     (if a = 0 then Finite 0
      else
        let k = int (bits a) - int (bits b);
            e2 = (if (if 0 \<le> k then b * 2 ^ nat k \<le> a else b \<le> a * 2 ^ nat (- k))
                  then k else k - 1);
            p = max (e2 - 52) (- 1074)
        in if 0 \<le> p
           then (let v = round_half_even a (b * 2 ^ nat p) * 2 ^ nat p
                 in if 2 ^ 1024 \<le> v then Infinity else Finite (of_nat v))
           else Finite (of_nat (round_half_even (a * 2 ^ nat (- p)) b) / 2 ^ nat (- p)))"

text \<open>
  \<^verbatim>\<open>parseFloat\<close> on the strings that reach it in this program: a run of digits,
  optionally followed by a point and digits, with no sign, exponent or leading
  white space. The longest such prefix is read; without any digit the result is
  \<^verbatim>\<open>NaN\<close>, otherwise the double nearest to the decimal number written, which
  is what the V8 engine of Node.js returns for a decimal of any length.
\<close>

definition digits_value :: "jsstring \<Rightarrow> nat" where
  "digits_value ds = foldl (\<lambda>a c. 10 * a + (c - 0x30)) 0 ds"

definition parseFloat :: "jsstring \<Rightarrow> number" where
  "parseFloat s =
     (let ip = takeWhile is_digit s;
          r = dropWhile is_digit s;
          fp = (case r of [] \<Rightarrow> [] | c # r' \<Rightarrow> if c = 0x2E then takeWhile is_digit r' else [])
      in if ip = [] \<and> fp = [] then NaN
         else double_of_fraction (digits_value (ip @ fp)) (10 ^ length fp))"

section \<open>Data model (models.js)\<close>

datatype txtype = Expense | Income

text \<open>
  \<open>userSchema\<close>. \<open>streak\<close> is a Number that the code only ever sets to 1 or
  increments by 1 from its default 0, so it is an integer here; \<open>lastRecordDate\<close>
  is a \<open>YYYY-MM-DD\<close> string or null; \<open>achievements\<close> is an array of ids in
  insertion order.
\<close>

record user =
  lineUserId :: string
  displayName :: jsstring
  pictureUrl :: jsstring
  currentGroupId :: "nat option"
  streak :: int
  lastRecordDate :: "string option"
  achievements :: "string list"
  totalSaved :: rat


text \<open>
  \<open>groupSchema\<close>, \<open>categorySchema\<close> and \<open>transactionSchema\<close>, with the fields the
  chat handlers read or write. Object ids are natural numbers. Icons, colours,
  budget limits, tags and the recurring flags are never read by the code modelled
  here and are left out.
\<close>

datatype grouptype = Personal | Family

record wallet =
  grp_id :: nat
  grp_name :: jsstring
  grp_type :: grouptype
  grp_members :: "string list"
  grp_createdBy :: string

record category =
  cat_id :: nat
  cat_groupId :: nat
  cat_name :: jsstring
  cat_type :: txtype

record transaction =
  tx_groupId :: "nat option"
  tx_userId :: string
  tx_type :: txtype
  tx_amount :: number
  tx_categoryId :: nat
  tx_date :: nat
  tx_monthStr :: string
  tx_note :: jsstring

text \<open>The collections of the document store, each in storage order.\<close>

record db =
  users :: "user list"
  groups :: "wallet list"
  categories :: "category list"
  transactions :: "transaction list"

text \<open>
  What a handler takes from outside the store while it serves one message: the
  clock (the time, and the local month and day keys built from it; the key of
  yesterday comes from a later reading), the profile the LINE API returns (\<open>None\<close> when the
  call fails), the ids the store gives to new documents, and what the Unicode
  tables and the regular expression engine of the installation decide:
  \<^item> \<open>env_caseTable p r\<close>: the lower-case image of \<open>r\<close>, a string that starts with
    a code unit that is not plain, when \<open>r\<close> follows \<open>p\<close> in a string;
  \<^item> \<open>env_regexEngine k\<close>, for a pattern \<open>k\<close> with syntax characters and the flag
    \<^verbatim>\<open>i\<close>: \<open>None\<close> when the pattern is rejected, or the set of strings that the
    pattern matches;
  \<^item> \<open>env_caselessOccurs k s\<close>, for a pattern \<open>k\<close> without syntax characters:
    whether \<open>k\<close> occurs in \<open>s\<close>, letter case aside, when one of the two has a code
    unit that is not plain.
\<close>

record env =
  env_now :: nat
  env_localMonth :: string
  env_todayStr :: string
  env_yesterdayStr :: string
  env_lineProfile :: "(jsstring \<times> jsstring) option"
  env_newGroupId :: nat
  env_newCategoryId :: "nat \<Rightarrow> nat"
  env_caseTable :: "jsstring \<Rightarrow> jsstring \<Rightarrow> jsstring"
  env_regexEngine :: "jsstring \<Rightarrow> (jsstring \<Rightarrow> bool) option"
  env_caselessOccurs :: "jsstring \<Rightarrow> jsstring \<Rightarrow> bool"

text \<open>
  \<^verbatim>\<open>String.prototype.toLowerCase\<close> maps a string code point by code point, from
  left to right, and joins the images. The image of a string therefore begins
  with the images of its leading plain code units, which are fixed; what follows
  is made by the case table of the installation from the rest of the string (and,
  for the final form of the Greek sigma, from what stands before it).
\<close>

definition toLowerCase :: "env \<Rightarrow> jsstring \<Rightarrow> jsstring" where
  "toLowerCase e s =
     (let p = takeWhile plain_unit s;
          r = dropWhile plain_unit s
      in map lower_unit p @ (if r = [] then [] else env_caseTable e p r))"

text \<open>\<open>defaultCategories\<close> of models.js: the names, in order, by type.\<close>

definition defaultCategories_expense :: "jsstring list" where
  "defaultCategories_expense =
    [ [0xE2D, 0xE32, 0xE2B, 0xE32, 0xE23],
     [0xE0A, 0xE32, 0xE19, 0xE21, 0x2F, 0xE01, 0xE32, 0xE41, 0xE1F],
     [0xE40, 0xE14, 0xE25, 0xE34, 0xE40, 0xE27, 0xE2D, 0xE23, 0xE35, 0xE48],
     [0xE0A, 0xE49, 0xE2D, 0xE1B, 0xE1B, 0xE34, 0xE49, 0xE07],
     [0xE02, 0xE2D, 0xE07, 0xE2D, 0xE2D, 0xE19, 0xE44, 0xE25, 0xE19, 0xE4C],
     [0x53, 0x6B, 0x69, 0x6E, 0x63, 0x61, 0x72, 0x65],
     [0xE1A, 0xE31, 0xE19, 0xE40, 0xE17, 0xE34, 0xE07],
     [0xE40, 0xE01, 0xE21],
     [0xE2A, 0xE15, 0xE23, 0xE35, 0xE21, 0xE21, 0xE34, 0xE48, 0xE07],
     [0xE04, 0xE2D, 0xE19, 0xE40, 0xE2A, 0xE34, 0xE23, 0xE4C, 0xE15],
     [0xE40, 0xE14, 0xE34, 0xE19, 0xE17, 0xE32, 0xE07],
     [0x47, 0x72, 0x61, 0x62, 0x2F, 0x42, 0x6F, 0x6C, 0x74],
     [0xE04, 0xE48, 0xE32, 0xE40, 0xE19, 0xE47, 0xE15, 0x2F, 0xE42, 0xE17, 0xE23],
     [0xE04, 0xE48, 0xE32, 0xE1A, 0xE49, 0xE32, 0xE19],
     [0xE04, 0xE48, 0xE32, 0xE19, 0xE49, 0xE33, 0x2D, 0xE44, 0xE1F],
     [0xE2A, 0xE38, 0xE02, 0xE20, 0xE32, 0xE1E],
     [0xE01, 0xE32, 0xE23, 0xE28, 0xE36, 0xE01, 0xE29, 0xE32],
     [0xE2A, 0xE31, 0xE15, 0xE27, 0xE4C, 0xE40, 0xE25, 0xE35, 0xE49, 0xE22, 0xE07],
     [0x4D, 0x65, 0x72, 0x63, 0x68, 0x2F, 0x49, 0x64, 0x6F, 0x6C],
     [0xE2D, 0xE37, 0xE48, 0xE19, 0xE46] ]"

definition defaultCategories_income :: "jsstring list" where
  "defaultCategories_income =
    [ [0xE40, 0xE07, 0xE34, 0xE19, 0xE40, 0xE14, 0xE37, 0xE2D, 0xE19],
     [0xE42, 0xE1A, 0xE19, 0xE31, 0xE2A],
     [0x46, 0x72, 0x65, 0x65, 0x6C, 0x61, 0x6E, 0x63, 0x65],
     [0xE02, 0xE32, 0xE22, 0xE02, 0xE2D, 0xE07],
     [0xE25, 0xE07, 0xE17, 0xE38, 0xE19, 0x2F, 0x43, 0x72, 0x79, 0x70, 0x74, 0x6F],
     [0xE23, 0xE32, 0xE22, 0xE44, 0xE14, 0xE49, 0xE40, 0xE2A, 0xE23, 0xE34, 0xE21],
     [0xE40, 0xE07, 0xE34, 0xE19, 0xE1E, 0xE48, 0xE2D, 0xE41, 0xE21, 0xE48],
     [0xE2D, 0xE37, 0xE48, 0xE19, 0xE46] ]"

datatype event = TextMessage string jsstring | OtherEvent

datatype error = SyntaxError | ValidationError

text \<open>
  What a handler sends back. The rendering of a reply (texts, cards, colours) is
  not modelled: each constructor stands for one reply site of server.js and
  carries the data that site puts into the message.
  \<^item> \<open>NoReply\<close>: the handler returns without sending (lines 173, 387, 2426).
  \<^item> \<open>SummaryFlex\<close>: the monthly summary card (line 372).
  \<^item> \<open>CategoryNotFoundText\<close>: the fixed text of lines 453-456.
  \<^item> \<open>RecordedFlex\<close>: the confirmation card of line 567.
  \<^item> \<open>ErrorText\<close>: the fixed text of the \<^verbatim>\<open>catch\<close> block, lines 569-574.
  \<^item> \<open>RegisterFirstText\<close>: lines 1792-1795 and 1506-1512.
  \<^item> \<open>CategoryNotFoundSuggest\<close>: the label and the suggestion names of lines
    2437-2445 and 1689-1698.
  \<^item> \<open>RecordedCard\<close>: the confirmation of lines 2500 and 1741-1753, with the
    streak and the number of badges it shows.
  \<^item> \<open>UnknownCommand\<close>: lines 1756-1763.
  \<^item> \<open>MessageRequired\<close>: the status 400 answer of lines 1496-1498.
\<close>

datatype reply =
    NoReply
  | SummaryFlex
  | CategoryNotFoundText
  | RecordedFlex transaction category
  | ErrorText
  | RegisterFirstText
  | CategoryNotFoundSuggest jsstring "jsstring list"
  | RecordedCard transaction category int nat
  | UnknownCommand jsstring
  | MessageRequired

section \<open>Streak and achievement bookkeeping\<close>

text \<open>
  The guarded push
  \<^verbatim>\<open>if (!user.achievements.includes(a)) { user.achievements.push(a); }\<close>
  of server.js lines 2484-2486, 1734-1736 and 2691-2693. The two streak badges
  put their threshold test in front of the same guard
  (\<^verbatim>\<open>user.streak === 7 && !user.achievements.includes('week_streak')\<close>).
\<close>

definition unlock :: "string \<Rightarrow> user \<Rightarrow> user" where
  "unlock a u =
     (if a \<notin> set (achievements u) then u\<lparr>achievements := achievements u @ [a]\<rparr> else u)"

text \<open>
  The block \<^verbatim>\<open>// Update streak\<close> of the second \<^verbatim>\<open>/webhook\<close> handler
  (server.js lines 2464-2489). \<open>todayStr\<close> is \<^verbatim>\<open>getTodayStr()\<close> and
  \<open>yesterdayStr\<close> the string built from a second reading of the clock; both are
  inputs. The result is the document handed to \<^verbatim>\<open>user.save()\<close>; when the
  outer test fails, nothing is assigned and nothing is saved.
\<close>

definition webhook_update_streak :: "string \<Rightarrow> string \<Rightarrow> user \<Rightarrow> user" where
  "webhook_update_streak todayStr yesterdayStr u =
     (if lastRecordDate u \<noteq> Some todayStr then
        let u1 = (if lastRecordDate u = Some yesterdayStr
                  then u\<lparr>streak := streak u + 1\<rparr>
                  else u\<lparr>streak := 1\<rparr>);
            u2 = u1\<lparr>lastRecordDate := Some todayStr\<rparr>;
            u3 = (if streak u2 = 7 then unlock ''week_streak'' u2 else u2);
            u4 = (if streak u3 = 30 then unlock ''month_streak'' u3 else u3)
        in unlock ''first_record'' u4
      else u)"

text \<open>
  The same block in \<^verbatim>\<open>/api/simulate-line\<close> (server.js lines 1718-1739). It has
  the \<open>week_streak\<close> and \<open>first_record\<close> checks only.
\<close>

definition simulate_update_streak :: "string \<Rightarrow> string \<Rightarrow> user \<Rightarrow> user" where
  "simulate_update_streak todayStr yesterdayStr u =
     (if lastRecordDate u \<noteq> Some todayStr then
        let u1 = (if lastRecordDate u = Some yesterdayStr
                  then u\<lparr>streak := streak u + 1\<rparr>
                  else u\<lparr>streak := 1\<rparr>);
            u2 = u1\<lparr>lastRecordDate := Some todayStr\<rparr>;
            u3 = (if streak u2 = 7 then unlock ''week_streak'' u2 else u2)
        in unlock ''first_record'' u3
      else u)"


section \<open>The reachable webhook handler: \<open>handleEvent\<close>\<close>

text \<open>
  \<^verbatim>\<open>text.match(/[\d,]+(\.\d+)?/)\<close> (lines 382-383): the leftmost match. A match
  starts at the first code unit that is a digit or a comma, takes the whole run
  of digits and commas, and then a point with the digits behind it when at least
  one digit follows the point. The result is the text before the match, the match
  and the text behind it.
\<close>

definition is_amount_char :: "nat \<Rightarrow> bool" where
  "is_amount_char c \<longleftrightarrow> is_digit c \<or> c = 0x2C"

definition numberPattern :: "jsstring \<Rightarrow> (jsstring \<times> jsstring \<times> jsstring) option" where
  "numberPattern text =
     (let before = takeWhile (\<lambda>c. \<not> is_amount_char c) text;
          r = dropWhile (\<lambda>c. \<not> is_amount_char c) text
      in if r = [] then None
         else
           let run = takeWhile is_amount_char r;
               r1 = dropWhile is_amount_char r
           in (case r1 of
                 [] \<Rightarrow> Some (before, run, [])
               | c # r2 \<Rightarrow>
                   if c = 0x2E \<and> takeWhile is_digit r2 \<noteq> []
                   then Some (before, run @ [0x2E] @ takeWhile is_digit r2, dropWhile is_digit r2)
                   else Some (before, run, r1)))"

text \<open>
  Lines 385-391: no match ends the handler; otherwise \<open>rawAmount\<close> is the match
  without its commas, read by \<^verbatim>\<open>parseFloat\<close>, and \<open>textWithoutNumber\<close> is the text
  with the match cut out, trimmed.
\<close>

definition extract_amount :: "jsstring \<Rightarrow> (number \<times> jsstring) option" where
  "extract_amount text =
     (case numberPattern text of
        None \<Rightarrow> None
      | Some (before, m, after) \<Rightarrow>
          Some (parseFloat (filter (\<lambda>c. c \<noteq> 0x2C) m), trim (before @ after)))"

text \<open>The keyword lists of lines 394-395, in the order of the source.\<close>

definition expenseKeywords :: "jsstring list" where
  "expenseKeywords =
    [ [0xE08, 0xE48, 0xE32, 0xE22],
     [0xE0B, 0xE37, 0xE49, 0xE2D],
     [0xE04, 0xE48, 0xE32],
     [0xE01, 0xE34, 0xE19],
     [0xE14, 0xE37, 0xE48, 0xE21],
     [0xE40, 0xE2A, 0xE35, 0xE22],
     [0xE2B, 0xE21, 0xE14],
     [0xE40, 0xE15, 0xE34, 0xE21],
     [0xE42, 0xE2D, 0xE19],
     [0xE08, 0xE2D, 0xE07] ]"

definition incomeKeywords :: "jsstring list" where
  "incomeKeywords =
    [ [0xE23, 0xE31, 0xE1A],
     [0xE44, 0xE14, 0xE49],
     [0xE40, 0xE07, 0xE34, 0xE19, 0xE40, 0xE14, 0xE37, 0xE2D, 0xE19],
     [0xE42, 0xE1A, 0xE19, 0xE31, 0xE2A],
     [0xE02, 0xE32, 0xE22],
     [0xE2B, 0xE32, 0xE23, 0xE32, 0xE22, 0xE44, 0xE14, 0xE49],
     [0x2B] ]"

text \<open>
  \<^verbatim>\<open>itemName.replace(new RegExp(keyword, 'g'), '').trim()\<close> (lines 406, 416). The
  Thai keywords have no syntax character, so their pattern matches the keyword
  itself. The last income keyword is \<^verbatim>\<open>'+'\<close>: the constructor rejects that pattern
  (a quantifier with nothing to repeat) and throws a \<^verbatim>\<open>SyntaxError\<close>.
\<close>

definition strip_keyword :: "jsstring \<Rightarrow> jsstring \<Rightarrow> error + jsstring" where
  "strip_keyword keyword itemName =
     (if keyword = [0x2B] then Inl SyntaxError
      else Inr (trim (replace_all keyword itemName)))"

text \<open>
  Lines 397-420: the type is \<open>income\<close> when the text contains an income keyword,
  and the first such keyword is stripped from the item name; otherwise the type
  stays \<open>expense\<close> and the first expense keyword the text contains is stripped.
\<close>

definition infer_type :: "jsstring \<Rightarrow> jsstring \<Rightarrow> error + (txtype \<times> jsstring)" where
  "infer_type text textWithoutNumber =
     (case find (includes_js text) incomeKeywords of
        Some keyword \<Rightarrow>
          (case strip_keyword keyword textWithoutNumber of
             Inl e \<Rightarrow> Inl e
           | Inr itemName \<Rightarrow> Inr (Income, itemName))
      | None \<Rightarrow>
          (case find (includes_js text) expenseKeywords of
             Some keyword \<Rightarrow>
               (case strip_keyword keyword textWithoutNumber of
                  Inl e \<Rightarrow> Inl e
                | Inr itemName \<Rightarrow> Inr (Expense, itemName))
           | None \<Rightarrow> Inr (Expense, textWithoutNumber)))"

text \<open>
  Line 423: one of three common prefixes is removed from the start of the item
  name, which is trimmed again; line 424: an empty item name becomes the name of
  the catch-all category.
\<close>

definition common_prefixes :: "jsstring list" where
  "common_prefixes = [ [0xE04, 0xE48, 0xE32], [0xE40, 0xE07, 0xE34, 0xE19], [0xE02, 0xE2D, 0xE07] ]"

definition name_others :: jsstring where
  "name_others = [0xE2D, 0xE37, 0xE48, 0xE19, 0xE46]"

definition clean_item_name :: "jsstring \<Rightarrow> jsstring" where
  "clean_item_name itemName =
     trim (case find (\<lambda>p. prefix p itemName) common_prefixes of
             Some p \<Rightarrow> drop (length p) itemName
           | None \<Rightarrow> itemName)"

definition category_name_of :: "jsstring \<Rightarrow> jsstring" where
  "category_name_of itemName = (if itemName = [] then name_others else itemName)"

text \<open>
  Lines 431-450. \<open>category\<close> is the first category whose lower-cased name equals
  the lower-cased \<open>categoryName\<close>; failing that the first category of the inferred
  type with one of the three catch-all names; failing that the first category of
  the inferred type. Then \<open>exactNameMatch\<close>, the first category whose lower-cased
  name equals the lower-cased \<open>textWithoutNumber\<close> (which must not be empty),
  replaces \<open>category\<close> and sets the type to its own.
\<close>

definition is_catch_all :: "jsstring \<Rightarrow> bool" where
  "is_catch_all n \<longleftrightarrow> n = name_others \<or> n = js ''Others'' \<or> n = js ''General''"

definition find_category ::
  "env \<Rightarrow> txtype \<Rightarrow> jsstring \<Rightarrow> jsstring \<Rightarrow> category list \<Rightarrow> category option \<times> txtype" where
  "find_category e type categoryName textWithoutNumber cats =
     (let category =
            (case find (\<lambda>c. toLowerCase e (cat_name c) = toLowerCase e categoryName) cats of
               Some c \<Rightarrow> Some c
             | None \<Rightarrow>
                 (case find (\<lambda>c. cat_type c = type \<and> is_catch_all (cat_name c)) cats of
                    Some c \<Rightarrow> Some c
                  | None \<Rightarrow> find (\<lambda>c. cat_type c = type) cats));
          exactNameMatch =
            find (\<lambda>c. textWithoutNumber \<noteq> [] \<and>
                       toLowerCase e (cat_name c) = toLowerCase e textWithoutNumber) cats
      in case exactNameMatch of
           Some c \<Rightarrow> (Some c, cat_type c)
         | None \<Rightarrow> (category, type))"

text \<open>
  Lines 183-216: a sender without a User document is registered: a personal
  wallet, the default categories (expense first, then income, as
  \<open>createDefaultCategories\<close> inserts them) and the user, whose display name falls
  back to a fixed word when the profile call fails or gives an empty name.
\<close>

definition name_default_user :: jsstring where
  "name_default_user = [0xE1C, 0xE39, 0xE49, 0xE43, 0xE0A, 0xE49]"

definition name_personal_wallet :: jsstring where
  "name_personal_wallet = [0xE01, 0xE23, 0xE30, 0xE40, 0xE1B, 0xE4B, 0xE32, 0xE2A, 0xE48, 0xE27, 0xE19, 0xE15, 0xE31, 0xE27]"

definition createDefaultCategories :: "env \<Rightarrow> nat \<Rightarrow> category list" where
  "createDefaultCategories e groupId =
     map (\<lambda>(i, n, t). \<lparr>cat_id = env_newCategoryId e i, cat_groupId = groupId,
                        cat_name = n, cat_type = t\<rparr>)
       (zip [0 ..< length defaultCategories_expense + length defaultCategories_income]
          (map (\<lambda>n. (n, Expense)) defaultCategories_expense @
           map (\<lambda>n. (n, Income)) defaultCategories_income))"

definition register_user :: "env \<Rightarrow> string \<Rightarrow> db \<Rightarrow> user \<times> db" where
  "register_user e userId d =
     (let profile = (case env_lineProfile e of
                       None \<Rightarrow> (name_default_user, [])
                     | Some p \<Rightarrow> p);
          personalGroup = \<lparr>grp_id = env_newGroupId e, grp_name = name_personal_wallet,
                           grp_type = Personal, grp_members = [userId],
                           grp_createdBy = userId\<rparr>;
          u = \<lparr>lineUserId = userId,
               displayName = (if fst profile = [] then name_default_user else fst profile),
               pictureUrl = snd profile,
               currentGroupId = Some (env_newGroupId e),
               streak = 0, lastRecordDate = None, achievements = [], totalSaved = 0\<rparr>
      in (u, d\<lparr>users := users d @ [u],
               groups := groups d @ [personalGroup],
               categories := categories d @ createDefaultCategories e (env_newGroupId e)\<rparr>))"

text \<open>
  Lines 375-567, for a resolved user. The new Transaction takes the whole message
  as its note (line 468). \<^verbatim>\<open>transaction.save()\<close> validates the document against
  \<open>transactionSchema\<close>, where \<open>amount\<close> is a required Number with minimum 0: a
  \<^verbatim>\<open>NaN\<close> amount is rejected, and like the \<^verbatim>\<open>SyntaxError\<close> above the rejection
  lands in the \<^verbatim>\<open>catch\<close> block, which answers with the error text and writes
  nothing; every other amount that arises passes. The pre-save hook of the schema
  sets \<open>monthStr\<close> to the local month of \<open>date\<close>.
\<close>

definition smart_input :: "env \<Rightarrow> user \<Rightarrow> jsstring \<Rightarrow> db \<Rightarrow> reply \<times> db" where
  "smart_input e u text d =
     (case extract_amount text of
        None \<Rightarrow> (NoReply, d)
      | Some (rawAmount, textWithoutNumber) \<Rightarrow>
          (case infer_type text textWithoutNumber of
             Inl err \<Rightarrow> (ErrorText, d)
           | Inr (type0, item) \<Rightarrow>
               let itemName = clean_item_name item;
                   categoryName = category_name_of itemName;
                   cats = filter (\<lambda>c. Some (cat_groupId c) = currentGroupId u) (categories d)
               in (case find_category e type0 categoryName textWithoutNumber cats of
                     (None, type) \<Rightarrow> (CategoryNotFoundText, d)
                   | (Some c, type) \<Rightarrow>
                       if rawAmount = NaN then (ErrorText, d)
                       else
                         let t = \<lparr>tx_groupId = currentGroupId u,
                                  tx_userId = lineUserId u,
                                  tx_type = type,
                                  tx_amount = rawAmount,
                                  tx_categoryId = cat_id c,
                                  tx_date = env_now e,
                                  tx_monthStr = env_localMonth e,
                                  tx_note = text\<rparr>
                         in (RecordedFlex t c,
                             d\<lparr>transactions := transactions d @ [t]\<rparr>))))"

text \<open>
  \<open>handleEvent\<close> (lines 171-576): events that are not text messages are ignored;
  the sender is looked up and registered when new; the words of line 222 ask for
  the monthly summary, which only reads; everything else is Smart Input.
\<close>

definition command_summary :: "jsstring list" where
  "command_summary = [ [0xE2A, 0xE23, 0xE38, 0xE1B], js ''summary'']"

definition handleEvent :: "env \<Rightarrow> event \<Rightarrow> db \<Rightarrow> reply \<times> db" where
  "handleEvent e ev d =
     (case ev of
        OtherEvent \<Rightarrow> (NoReply, d)
      | TextMessage userId raw \<Rightarrow>
          let text = trim raw;
              (u, d1) = (case find (\<lambda>u. lineUserId u = userId) (users d) of
                           Some u \<Rightarrow> (u, d)
                         | None \<Rightarrow> register_user e userId d);
              lowerText = toLowerCase e text
          in if lowerText \<in> set command_summary then (SummaryFlex, d1)
             else smart_input e u text d1)"

section \<open>The regular expressions of the command handlers\<close>

text \<open>
  The patterns below are anchored at both ends and are matched by backtracking.
  Two pieces of that search are written once. \<open>lazy_dot_plus tail\<close> is the lazy
  group \<^verbatim>\<open>(.+?)\<close> followed by the rest of the pattern: the group takes one code
  unit that is not a line terminator, then tries \<open>tail\<close> on what is left, and
  takes one more code unit each time \<open>tail\<close> fails. \<open>spaces_then k\<close> is the greedy
  \<^verbatim>\<open>\s+\<close> followed by the rest of the pattern: the whole run of white space first,
  then one code unit less each time \<open>k\<close> fails.
\<close>

fun lazy_until :: "(jsstring \<Rightarrow> 'a option) \<Rightarrow> jsstring \<Rightarrow> jsstring \<Rightarrow> (jsstring \<times> 'a) option" where
  "lazy_until tail acc [] =
     (case tail [] of Some x \<Rightarrow> Some (acc, x) | None \<Rightarrow> None)"
| "lazy_until tail acc (c # r) =
     (case tail (c # r) of
        Some x \<Rightarrow> Some (acc, x)
      | None \<Rightarrow> if is_line_terminator c then None else lazy_until tail (acc @ [c]) r)"

definition lazy_dot_plus :: "(jsstring \<Rightarrow> 'a option) \<Rightarrow> jsstring \<Rightarrow> (jsstring \<times> 'a) option" where
  "lazy_dot_plus tail s =
     (case s of
        [] \<Rightarrow> None
      | c # r \<Rightarrow> if is_line_terminator c then None else lazy_until tail [c] r)"

fun spaces_from :: "nat \<Rightarrow> (jsstring \<Rightarrow> 'a option) \<Rightarrow> jsstring \<Rightarrow> 'a option" where
  "spaces_from 0 k r = None"
| "spaces_from (Suc j) k r =
     (case k (drop (Suc j) r) of Some x \<Rightarrow> Some x | None \<Rightarrow> spaces_from j k r)"

definition spaces_then :: "(jsstring \<Rightarrow> 'a option) \<Rightarrow> jsstring \<Rightarrow> 'a option" where
  "spaces_then k r = spaces_from (length (takeWhile is_space r)) k r"

text \<open>
  \<^verbatim>\<open>\s+(\d+)$\<close>, the end of the three \<^verbatim>\<open>VERB NAME AMOUNT\<close> patterns: white space,
  then digits up to the end of the text. Only the whole run of white space can be
  followed by a digit, so no shorter run is tried.
\<close>

definition amount_tail :: "jsstring \<Rightarrow> jsstring option" where
  "amount_tail r =
     (let ds = dropWhile is_space r
      in if takeWhile is_space r \<noteq> [] \<and> ds \<noteq> [] \<and> list_all is_digit ds then Some ds
         else None)"

text \<open>
  \<^verbatim>\<open>/^VERB\s+(.+?)\s+(\d+)$/i\<close> (lines 1963, 2226, 2248). The verbs are Thai words,
  which the \<^verbatim>\<open>i\<close> flag leaves as they are. The result is the pair of captures.
\<close>

definition verb_name_amount :: "jsstring \<Rightarrow> jsstring \<Rightarrow> (jsstring \<times> jsstring) option" where
  "verb_name_amount verb s =
     (if prefix verb s then spaces_then (lazy_dot_plus amount_tail) (drop (length verb) s)
      else None)"

definition verb_set_budget :: jsstring where
  "verb_set_budget = [0xE15, 0xE31, 0xE49, 0xE07, 0xE07, 0xE1A]"

definition verb_set_goal :: jsstring where
  "verb_set_goal = [0xE15, 0xE31, 0xE49, 0xE07, 0xE40, 0xE1B, 0xE49, 0xE32]"

definition verb_save :: jsstring where
  "verb_save = [0xE2D, 0xE2D, 0xE21]"

text \<open>
  \<^verbatim>\<open>/^(?:MOOD|mood)\s*(\d)$/\<close> on the lower-cased text (line 2304), where \<^verbatim>\<open>MOOD\<close> is
  the Thai word: one of the two words, any white space, and exactly one digit at
  the end. The result is the digit.
\<close>

definition moodMatch :: "jsstring \<Rightarrow> nat option" where
  "moodMatch text =
     (case find (\<lambda>p. prefix p text) [ [0xE2D, 0xE32, 0xE23, 0xE21, 0xE13, 0xE4C], js ''mood''] of
        None \<Rightarrow> None
      | Some p \<Rightarrow>
          (case dropWhile is_space (drop (length p) text) of
             [c] \<Rightarrow> if is_digit c then Some c else None
           | _ \<Rightarrow> None))"

text \<open>
  \<^verbatim>\<open>/^(?:W1|W2|note)\s+(.+)$/i\<close> on the trimmed text (line 2326), where \<^verbatim>\<open>W1\<close> and
  \<^verbatim>\<open>W2\<close> are Thai words: one of the three words, the Latin one in any letter
  case, white space, and at least one code unit up to the end of the text, none
  of them a line terminator. The result is the capture.
\<close>

definition rest_of_line :: "jsstring \<Rightarrow> jsstring option" where
  "rest_of_line r =
     (if r \<noteq> [] \<and> list_all (\<lambda>c. \<not> is_line_terminator c) r then Some r else None)"

definition noteMatch :: "jsstring \<Rightarrow> jsstring option" where
  "noteMatch s =
     (case find (\<lambda>p. prefix p (map lower_unit s)) [ [0xE08, 0xE14], [0xE1A, 0xE31, 0xE19, 0xE17, 0xE36, 0xE01], js ''note''] of
        None \<Rightarrow> None
      | Some p \<Rightarrow> spaces_then rest_of_line (drop (length p) s))"

text \<open>
  \<^verbatim>\<open>/^(.+?)\s+(\d+(?:\.\d+)?)(?:\s+(.*))?$/\<close>, the Smart Input pattern of lines 2422
  and 1677. \<open>note_tail\<close> is \<^verbatim>\<open>(?:\s+(.*))?$\<close>: the end of the text (the note is
  then \<^verbatim>\<open>undefined\<close>), or white space and a note that runs to the end of the text
  without a line terminator. \<open>smart_tail\<close> is what follows the label: white space,
  digits, a point with digits when digits follow the point, and \<open>note_tail\<close>. Each
  of these runs is taken whole: behind a shorter run of white space or digits the
  next code unit is of the same kind, where the pattern asks for another one.
  The result is label, amount string and note.
\<close>

definition note_tail :: "jsstring \<Rightarrow> jsstring option option" where
  "note_tail t =
     (if t = [] then Some None
      else if takeWhile is_space t \<noteq> [] \<and>
              list_all (\<lambda>c. \<not> is_line_terminator c) (dropWhile is_space t)
           then Some (Some (dropWhile is_space t))
           else None)"

definition smart_tail :: "jsstring \<Rightarrow> (jsstring \<times> jsstring option) option" where
  "smart_tail r =
     (let r1 = dropWhile is_space r;
          ds = takeWhile is_digit r1;
          r2 = dropWhile is_digit r1
      in if takeWhile is_space r = [] \<or> ds = [] then None
         else
           let (amountStr, r3) =
                 (case r2 of
                    [] \<Rightarrow> (ds, [])
                  | c # f \<Rightarrow>
                      if c = 0x2E \<and> takeWhile is_digit f \<noteq> []
                      then (ds @ [0x2E] @ takeWhile is_digit f, dropWhile is_digit f)
                      else (ds, r2))
           in (case note_tail r3 of
                 None \<Rightarrow> None
               | Some note \<Rightarrow> Some (amountStr, note)))"

definition smart_regex :: "jsstring \<Rightarrow> (jsstring \<times> jsstring \<times> jsstring option) option" where
  "smart_regex s = lazy_dot_plus smart_tail s"

section \<open>The second \<^verbatim>\<open>/webhook\<close> handler and the simulator\<close>

text \<open>
  The branches of the second \<^verbatim>\<open>/webhook\<close> handler (lines 1802-2419), in the order
  of the source. \<open>text\<close> is the trimmed, lower-cased message and \<open>originalText\<close>
  the trimmed message. A word branch is taken when \<open>text\<close> is one of its words,
  a pattern branch when its pattern matches; every branch ends in \<^verbatim>\<open>continue\<close>.
  \<open>SmartInput\<close> is what remains (line 2421). The bodies of the command branches
  are not part of this development.
\<close>

datatype route =
    CmdIncome | CmdHowToIncome | CmdExpense | CmdHowToExpense | CmdRecurring
  | CmdBudget | CmdBudgetStatus | CmdSetBudget jsstring jsstring | CmdTopFive
  | CmdSummary | CmdToday | CmdByCategory | CmdBalance | CmdSpent | CmdGoals
  | CmdSetGoal jsstring jsstring | CmdSave jsstring jsstring | CmdAchievements
  | CmdMood nat | CmdNote jsstring | CmdJournal | CmdRecent | CmdCategories
  | CmdStats | CmdHelp | SmartInput

definition webhook_route :: "jsstring \<Rightarrow> jsstring \<Rightarrow> route" where
  "webhook_route text originalText =
    (if text \<in> set
       [ [0xE23, 0xE32, 0xE22, 0xE23, 0xE31, 0xE1A],
        js ''income'',
        [0x2B] ]
     then CmdIncome else
     if text \<in> set
       [ [0xE27, 0xE34, 0xE18, 0xE35, 0xE1A, 0xE31, 0xE19, 0xE17, 0xE36, 0xE01, 0xE23, 0xE32, 0xE22, 0xE23, 0xE31, 0xE1A] ]
     then CmdHowToIncome else
     if text \<in> set
       [ [0xE23, 0xE32, 0xE22, 0xE08, 0xE48, 0xE32, 0xE22],
        js ''expense'',
        [0x2D] ]
     then CmdExpense else
     if text \<in> set
       [ [0xE27, 0xE34, 0xE18, 0xE35, 0xE1A, 0xE31, 0xE19, 0xE17, 0xE36, 0xE01, 0xE23, 0xE32, 0xE22, 0xE08, 0xE48, 0xE32, 0xE22] ]
     then CmdHowToExpense else
     if text \<in> set
       [ [0xE1B, 0xE23, 0xE30, 0xE08, 0xE33],
        js ''recurring'']
     then CmdRecurring else
     if text \<in> set
       [ [0xE07, 0xE1A],
        js ''budget'',
        [0xE07, 0xE1A, 0xE1B, 0xE23, 0xE30, 0xE21, 0xE32, 0xE13] ]
     then CmdBudget else
     if text \<in> set
       [ [0xE2A, 0xE16, 0xE32, 0xE19, 0xE30, 0xE07, 0xE1A] ]
     then CmdBudgetStatus else
     (case verb_name_amount verb_set_budget originalText of
       Some (catName, limitStr) \<Rightarrow> CmdSetBudget catName limitStr
     | None \<Rightarrow>
     if text \<in> set
       [ [0xE2B, 0xE21, 0xE27, 0xE14] ]
     then CmdTopFive else
     if text \<in> set
       [ [0xE2A, 0xE23, 0xE38, 0xE1B],
        [0xE2A, 0xE23, 0xE38, 0xE1B, 0xE40, 0xE14, 0xE37, 0xE2D, 0xE19] ]
     then CmdSummary else
     if text \<in> set
       [ [0xE2A, 0xE23, 0xE38, 0xE1B, 0xE27, 0xE31, 0xE19],
        [0xE27, 0xE31, 0xE19, 0xE19, 0xE35, 0xE49] ]
     then CmdToday else
     if text \<in> set
       [ [0xE14, 0xE39, 0xE2B, 0xE21, 0xE27, 0xE14],
        [0xE2B, 0xE21, 0xE27, 0xE14, 0xE2B, 0xE21, 0xE39, 0xE48] ]
     then CmdByCategory else
     if text \<in> set
       [ [0xE40, 0xE2B, 0xE25, 0xE37, 0xE2D, 0xE40, 0xE17, 0xE48, 0xE32, 0xE44, 0xE2B, 0xE23, 0xE48],
        [0xE22, 0xE2D, 0xE14, 0xE04, 0xE07, 0xE40, 0xE2B, 0xE25, 0xE37, 0xE2D],
        js ''balance'']
     then CmdBalance else
     if text \<in> set
       [ [0xE43, 0xE0A, 0xE49, 0xE44, 0xE1B, 0xE40, 0xE17, 0xE48, 0xE32, 0xE44, 0xE2B, 0xE23, 0xE48],
        [0xE43, 0xE0A, 0xE49, 0xE08, 0xE48, 0xE32, 0xE22] ]
     then CmdSpent else
     if text \<in> set
       [ [0xE40, 0xE1B, 0xE49, 0xE32, 0xE2B, 0xE21, 0xE32, 0xE22],
        [0xE14, 0xE39, 0xE40, 0xE1B, 0xE49, 0xE32, 0xE2B, 0xE21, 0xE32, 0xE22],
        js ''goals'']
     then CmdGoals else
     (case verb_name_amount verb_set_goal originalText of
       Some (goalName, targetStr) \<Rightarrow> CmdSetGoal goalName targetStr
     | None \<Rightarrow>
    (case verb_name_amount verb_save originalText of
       Some (goalName, addAmountStr) \<Rightarrow> CmdSave goalName addAmountStr
     | None \<Rightarrow>
     if text \<in> set
       [ [0xE04, 0xE27, 0xE32, 0xE21, 0xE2A, 0xE33, 0xE40, 0xE23, 0xE47, 0xE08],
        js ''achievements'',
        js ''badge'',
        [0xE41, 0xE1A, 0xE14, 0xE08, 0xE4C] ]
     then CmdAchievements else
     (case moodMatch text of
       Some moodDigit \<Rightarrow> CmdMood moodDigit
     | None \<Rightarrow>
    (case noteMatch originalText of
       Some noteText \<Rightarrow> CmdNote noteText
     | None \<Rightarrow>
     if text \<in> set
       [js ''journal'',
        [0xE14, 0xE39, 0xE1A, 0xE31, 0xE19, 0xE17, 0xE36, 0xE01],
        [0xE1A, 0xE31, 0xE19, 0xE17, 0xE36, 0xE01, 0xE27, 0xE31, 0xE19, 0xE19, 0xE35, 0xE49] ]
     then CmdJournal else
     if text \<in> set
       [ [0xE25, 0xE48, 0xE32, 0xE2A, 0xE38, 0xE14],
        [0xE23, 0xE32, 0xE22, 0xE01, 0xE32, 0xE23, 0xE25, 0xE48, 0xE32, 0xE2A, 0xE38, 0xE14],
        js ''recent'']
     then CmdRecent else
     if text \<in> set
       [ [0xE23, 0xE32, 0xE22, 0xE01, 0xE32, 0xE23, 0xE2B, 0xE21, 0xE27, 0xE14],
        [0xE2B, 0xE21, 0xE27, 0xE14, 0xE17, 0xE31, 0xE49, 0xE07, 0xE2B, 0xE21, 0xE14],
        js ''categories'']
     then CmdCategories else
     if text \<in> set
       [ [0xE2A, 0xE16, 0xE34, 0xE15, 0xE34],
        js ''stats'',
        [0xE02, 0xE49, 0xE2D, 0xE21, 0xE39, 0xE25] ]
     then CmdStats else
     if text \<in> set
       [js ''help'',
        [0xE0A, 0xE48, 0xE27, 0xE22],
        [0xE0A, 0xE48, 0xE27, 0xE22, 0xE40, 0xE2B, 0xE25, 0xE37, 0xE2D],
        [0xE04, 0xE33, 0xE2A, 0xE31, 0xE48, 0xE07] ]
     then CmdHelp else
     SmartInput))))))"

text \<open>The branches of \<^verbatim>\<open>/api/simulate-line\<close> (lines 1523-1676).\<close>

definition simulate_route :: "jsstring \<Rightarrow> route" where
  "simulate_route text =
    (if text \<in> set
       [ [0xE2A, 0xE23, 0xE38, 0xE1B],
        [0xE2A, 0xE23, 0xE38, 0xE1B, 0xE40, 0xE14, 0xE37, 0xE2D, 0xE19] ]
     then CmdSummary else
     if text \<in> set
       [ [0xE2A, 0xE23, 0xE38, 0xE1B, 0xE27, 0xE31, 0xE19],
        [0xE27, 0xE31, 0xE19, 0xE19, 0xE35, 0xE49] ]
     then CmdToday else
     if text \<in> set
       [ [0xE14, 0xE39, 0xE2B, 0xE21, 0xE27, 0xE14],
        [0xE2B, 0xE21, 0xE27, 0xE14],
        [0xE2B, 0xE21, 0xE27, 0xE14, 0xE2B, 0xE21, 0xE39, 0xE48] ]
     then CmdByCategory else
     if text \<in> set
       [ [0xE40, 0xE1B, 0xE49, 0xE32, 0xE2B, 0xE21, 0xE32, 0xE22],
        js ''goals'']
     then CmdGoals else
     if text \<in> set
       [ [0xE04, 0xE27, 0xE32, 0xE21, 0xE2A, 0xE33, 0xE40, 0xE23, 0xE47, 0xE08],
        js ''achievements'',
        js ''badge'']
     then CmdAchievements else
     if text \<in> set
       [ [0xE2A, 0xE16, 0xE34, 0xE15, 0xE34],
        js ''stats'']
     then CmdStats else
     if text \<in> set
       [js ''help'',
        [0xE0A, 0xE48, 0xE27, 0xE22],
        [0xE0A, 0xE48, 0xE27, 0xE22, 0xE40, 0xE2B, 0xE25, 0xE37, 0xE2D],
        [0xE04, 0xE33, 0xE2A, 0xE31, 0xE48, 0xE07] ]
     then CmdHelp else
     SmartInput)"

text \<open>
  The syntax characters of a pattern are \<^verbatim>\<open>^ $ \ . * + ? ( ) [ ] { } |\<close>.
  \<^verbatim>\<open>new RegExp(categoryName, 'i')\<close> as the \<^verbatim>\<open>$regex\<close> of a query (lines 2432-2435,
  1684-1687): the label the user typed is the pattern. A label with syntax
  characters is a pattern of the engine, which either rejects it (\<open>None\<close>: the
  constructor throws a \<^verbatim>\<open>SyntaxError\<close>, or the store refuses the query, which
  ends the handler in the same way) or says which names match. The same holds for
  a label with the code unit 0, which the wire format of the store cannot carry
  in a pattern. Every other label is accepted and matches the names in which it
  occurs, letter case aside: for a plain label and a plain name, when the images
  under \<open>lower_unit\<close> of the label occur, in a row, among those of the name;
  otherwise as the tables of the engine say.
\<close>

definition is_syntax_char :: "nat \<Rightarrow> bool" where
  "is_syntax_char c \<longleftrightarrow>
     c \<in> set [0x5E, 0x24, 0x5C, 0x2E, 0x2A, 0x2B, 0x3F, 0x28, 0x29, 0x5B, 0x5D, 0x7B, 0x7D, 0x7C]"

definition regexp_i :: "env \<Rightarrow> jsstring \<Rightarrow> (jsstring \<Rightarrow> bool) option" where
  "regexp_i e pattern =
     (if list_ex (\<lambda>c. is_syntax_char c \<or> c = 0) pattern then env_regexEngine e pattern
      else Some (\<lambda>s. if list_all plain_unit pattern \<and> list_all plain_unit s
                      then includes_js (map lower_unit s) (map lower_unit pattern)
                      else env_caselessOccurs e pattern s))"

text \<open>\<^verbatim>\<open>user.save()\<close>: the document with the user's key is replaced.\<close>

definition save_user :: "user \<Rightarrow> db \<Rightarrow> db" where
  "save_user u d =
     d\<lparr>users := map (\<lambda>v. if lineUserId v = lineUserId u then u else v) (users d)\<rparr>"

text \<open>
  Lines 2421-2598 for a resolved user and wallet. An exception leaves the loop
  over the events and is the \<open>Inl\<close> result: no reply is sent for the message.
  The amount string matched \<^verbatim>\<open>\d+(?:\.\d+)?\<close>, so \<^verbatim>\<open>parseFloat\<close> reads all of it
  and the amount is never \<^verbatim>\<open>NaN\<close>.
\<close>

definition webhook_smart_input ::
  "env \<Rightarrow> user \<Rightarrow> nat \<Rightarrow> jsstring \<Rightarrow> db \<Rightarrow> error + (reply \<times> db)" where
  "webhook_smart_input e u groupId originalText d =
     (case smart_regex originalText of
        None \<Rightarrow> Inr (NoReply, d)
      | Some (categoryName, amountStr, note) \<Rightarrow>
          (case regexp_i e categoryName of
             None \<Rightarrow> Inl SyntaxError
           | Some matches \<Rightarrow>
               (case find (\<lambda>c. cat_groupId c = groupId \<and> matches (cat_name c)) (categories d) of
                  None \<Rightarrow>
                    Inr (CategoryNotFoundSuggest categoryName
                           (map cat_name
                              (take 8 (filter (\<lambda>c. cat_groupId c = groupId \<and> cat_type c = Expense)
                                         (categories d)))), d)
                | Some c \<Rightarrow>
                    (if parseFloat amountStr = NaN then Inl ValidationError
                     else
                         let t = \<lparr>tx_groupId = Some groupId,
                                  tx_userId = lineUserId u,
                                  tx_type = cat_type c,
                                  tx_amount = parseFloat amountStr,
                                  tx_categoryId = cat_id c,
                                  tx_date = env_now e,
                                  tx_monthStr = env_localMonth e,
                                  tx_note = (case note of None \<Rightarrow> [] | Some n \<Rightarrow> n)\<rparr>;
                             d1 = d\<lparr>transactions := transactions d @ [t]\<rparr>;
                             u' = webhook_update_streak (env_todayStr e) (env_yesterdayStr e) u;
                             d2 = (if lastRecordDate u \<noteq> Some (env_todayStr e)
                                   then save_user u' d1 else d1)
                         in Inr (RecordedCard t c (streak u') (length (achievements u')), d2)))))"

text \<open>
  One event in the loop of the second \<^verbatim>\<open>/webhook\<close> handler (lines 1779-2600). The
  user is looked up with the wallet populated; a missing user, a missing wallet
  reference or a reference to no wallet gets the registration text. \<open>Enters r\<close>
  says that the body of command branch \<open>r\<close> runs.
\<close>

datatype outcome = Done reply db | Enters route | Throws error

definition active_group :: "string \<Rightarrow> db \<Rightarrow> (user \<times> nat) option" where
  "active_group userId d =
     (case find (\<lambda>u. lineUserId u = userId) (users d) of
        None \<Rightarrow> None
      | Some u \<Rightarrow>
          (case currentGroupId u of
             None \<Rightarrow> None
           | Some g \<Rightarrow> if list_ex (\<lambda>w. grp_id w = g) (groups d) then Some (u, g) else None))"

definition webhook_second :: "env \<Rightarrow> event \<Rightarrow> db \<Rightarrow> outcome" where
  "webhook_second e ev d =
     (case ev of
        OtherEvent \<Rightarrow> Done NoReply d
      | TextMessage userId raw \<Rightarrow>
          let text = toLowerCase e (trim raw);
              originalText = trim raw
          in (case active_group userId d of
                None \<Rightarrow> Done RegisterFirstText d
              | Some (u, groupId) \<Rightarrow>
                  (case webhook_route text originalText of
                     SmartInput \<Rightarrow>
                       (case webhook_smart_input e u groupId originalText d of
                          Inl err \<Rightarrow> Throws err
                        | Inr (r, d') \<Rightarrow> Done r d')
                   | r \<Rightarrow> Enters r)))"

text \<open>
  \<^verbatim>\<open>/api/simulate-line\<close> (lines 1491-1773) for the authenticated sender: an empty
  message is refused; the user and wallet are resolved as above; the last branch
  (lines 1676-1765) is Smart Input with the simulator's streak block, and a text
  that does not match the pattern gets the \<open>unknown\<close> answer.
\<close>

definition simulate_smart_input ::
  "env \<Rightarrow> user \<Rightarrow> nat \<Rightarrow> jsstring \<Rightarrow> db \<Rightarrow> error + (reply \<times> db)" where
  "simulate_smart_input e u groupId originalText d =
     (case smart_regex originalText of
        None \<Rightarrow> Inr (UnknownCommand originalText, d)
      | Some (categoryName, amountStr, note) \<Rightarrow>
          (case regexp_i e categoryName of
             None \<Rightarrow> Inl SyntaxError
           | Some matches \<Rightarrow>
               (case find (\<lambda>c. cat_groupId c = groupId \<and> matches (cat_name c)) (categories d) of
                  None \<Rightarrow>
                    Inr (CategoryNotFoundSuggest categoryName
                           (map cat_name
                              (take 8 (filter (\<lambda>c. cat_groupId c = groupId \<and> cat_type c = Expense)
                                         (categories d)))), d)
                | Some c \<Rightarrow>
                    (if parseFloat amountStr = NaN then Inl ValidationError
                     else
                         let t = \<lparr>tx_groupId = Some groupId,
                                  tx_userId = lineUserId u,
                                  tx_type = cat_type c,
                                  tx_amount = parseFloat amountStr,
                                  tx_categoryId = cat_id c,
                                  tx_date = env_now e,
                                  tx_monthStr = env_localMonth e,
                                  tx_note = (case note of None \<Rightarrow> [] | Some n \<Rightarrow> n)\<rparr>;
                             d1 = d\<lparr>transactions := transactions d @ [t]\<rparr>;
                             u' = simulate_update_streak (env_todayStr e) (env_yesterdayStr e) u;
                             d2 = (if lastRecordDate u \<noteq> Some (env_todayStr e)
                                   then save_user u' d1 else d1)
                         in Inr (RecordedCard t c (streak u') (length (achievements u')), d2)))))"

definition simulate_line :: "env \<Rightarrow> string \<Rightarrow> jsstring \<Rightarrow> db \<Rightarrow> outcome" where
  "simulate_line e userId message d =
     (if message = [] then Done MessageRequired d
      else
        let text = toLowerCase e (trim message);
            originalText = trim message
        in (case active_group userId d of
              None \<Rightarrow> Done RegisterFirstText d
            | Some (u, groupId) \<Rightarrow>
                (case simulate_route text of
                   SmartInput \<Rightarrow>
                     (case simulate_smart_input e u groupId originalText d of
                        Inl err \<Rightarrow> Throws err
                      | Inr (r, d') \<Rightarrow> Done r d')
                 | r \<Rightarrow> Enters r)))"

section \<open>Shapes of chat texts\<close>

text \<open>
  Vocabulary for the statements about texts of the form \<^verbatim>\<open>LABEL AMOUNT [NOTE]\<close>; it
  is not part of the program. The amount is a run of digits followed by
  \<open>dec\<close>, which is empty or a point with at least one digit; the note follows
  behind one space, and \<open>trailing\<close> of the empty note is empty.
\<close>

definition is_fraction :: "jsstring \<Rightarrow> bool" where
  "is_fraction dec \<longleftrightarrow>
     dec = [] \<or> (hd dec = 0x2E \<and> tl dec \<noteq> [] \<and> list_all is_digit (tl dec))"

definition trailing :: "jsstring \<Rightarrow> jsstring" where
  "trailing note = (if note = [] then [] else 0x20 # note)"

section \<open>Example data\<close>

text \<open>Users, an environment and a store for the concrete evaluations below.\<close>

definition demo_user :: user where
  "demo_user = \<lparr>lineUserId = ''U1001'', displayName = js ''Mali'', pictureUrl = [],
     currentGroupId = Some 7, streak = 6, lastRecordDate = Some ''2025-01-09'',
     achievements = [''first_record''], totalSaved = 0\<rparr>"

definition user_day29 :: user where
  "user_day29 = \<lparr>lineUserId = ''U1002'', displayName = js ''Somchai'', pictureUrl = [],
     currentGroupId = Some 8, streak = 29, lastRecordDate = Some ''2025-01-09'',
     achievements = [''first_record'', ''week_streak''], totalSaved = 0\<rparr>"

text \<open>
  The installation of the examples. Its case table knows the letters of the
  Latin-1 Supplement next to the plain code units. Its pattern engine knows the
  patterns of one syntax character: seven of them are rejected, three match every
  string, the point matches a string with a code unit other than the line feed,
  and a lone closing bracket or brace stands for itself; the examples use no
  other pattern with syntax characters.
\<close>

definition latin1_lower :: "nat \<Rightarrow> nat" where
  "latin1_lower c = (if 0xC0 \<le> c \<and> c \<le> 0xDE \<and> c \<noteq> 0xD7 then c + 0x20 else lower_unit c)"

definition engine0 :: "jsstring \<Rightarrow> (jsstring \<Rightarrow> bool) option" where
  "engine0 k =
     (case k of
        [c] \<Rightarrow>
          if c \<in> set [0x5E, 0x24, 0x7C] then Some (\<lambda>s. True)
          else if c = 0x2E then Some (\<lambda>s. list_ex (\<lambda>x. x \<noteq> 0x0A) s)
          else if c \<in> set [0x5D, 0x7B, 0x7D] then Some (\<lambda>s. c \<in> set s)
          else None
      | _ \<Rightarrow> None)"

definition env0 :: env where
  "env0 = \<lparr>env_now = 1736500000000, env_localMonth = ''2025-01'',
     env_todayStr = ''2025-01-10'', env_yesterdayStr = ''2025-01-09'',
     env_lineProfile = None, env_newGroupId = 9, env_newCategoryId = (\<lambda>i. 100 + i),
     env_caseTable = (\<lambda>p r. map latin1_lower r),
     env_regexEngine = engine0,
     env_caselessOccurs = (\<lambda>k s. includes_js (map latin1_lower s) (map latin1_lower k))\<rparr>"

text \<open>
  The store of a user who was registered by \<open>handleEvent\<close>: one personal wallet
  with the default categories, ids 100 to 127, and no transaction yet.
\<close>

definition db_default :: db where
  "db_default = \<lparr>users = [demo_user],
     groups = [\<lparr>grp_id = 7, grp_name = name_personal_wallet, grp_type = Personal,
                grp_members = [''U1001''], grp_createdBy = ''U1001''\<rparr>],
     categories = createDefaultCategories env0 7,
     transactions = []\<rparr>"

text \<open>The words of the scenarios of the specification: a category, a note, a label.\<close>

definition word_travel :: jsstring where
  "word_travel = [0xE40, 0xE14, 0xE34, 0xE19, 0xE17, 0xE32, 0xE07]"

definition word_taxi_fare :: jsstring where
  "word_taxi_fare = [0xE04, 0xE48, 0xE32, 0xE41, 0xE17, 0xE47, 0xE01, 0xE0B, 0xE35, 0xE48]"

definition word_milk_tea :: jsstring where
  "word_milk_tea = [0xE0A, 0xE32, 0xE19, 0xE21]"

definition word_salary :: jsstring where
  "word_salary = [0xE40, 0xE07, 0xE34, 0xE19, 0xE40, 0xE14, 0xE37, 0xE2D, 0xE19]"

definition word_food :: jsstring where
  "word_food = [0xE2D, 0xE32, 0xE2B, 0xE32, 0xE23]"

definition word_coffee :: jsstring where
  "word_coffee = [0xE01, 0xE32, 0xE41, 0xE1F]"

definition word_special_bonus :: jsstring where
  "word_special_bonus = [0xE42, 0xE1A, 0xE19, 0xE31, 0xE2A, 0xE1E, 0xE34, 0xE40, 0xE28, 0xE29]"

definition word_buy_odd_things :: jsstring where
  "word_buy_odd_things = [0xE0B, 0xE37, 0xE49, 0xE2D, 0xE02, 0xE2D, 0xE07, 0xE41, 0xE1B, 0xE25, 0xE01, 0xE46]"

definition name_milk_tea_coffee :: jsstring where
  "name_milk_tea_coffee = [0xE0A, 0xE32, 0xE19, 0xE21, 0x2F, 0xE01, 0xE32, 0xE41, 0xE1F]"

text \<open>The default store with one more expense category, named \<open>Disney+\<close>.\<close>

definition db_streaming :: db where
  "db_streaming = db_default\<lparr>categories := categories db_default @
     [\<lparr>cat_id = 201, cat_groupId = 7, cat_name = js ''Disney+'', cat_type = Expense\<rparr>]\<rparr>"

text \<open>
  The default store with two more categories whose names differ in letter case
  only, outside Basic Latin: a capital E with acute accent, an expense category,
  and the small letter, an income category.
\<close>

definition db_accent :: db where
  "db_accent = db_default\<lparr>categories := categories db_default @
     [\<lparr>cat_id = 300, cat_groupId = 7, cat_name = [0xC9], cat_type = Expense\<rparr>,
      \<lparr>cat_id = 301, cat_groupId = 7, cat_name = [0xE9], cat_type = Income\<rparr>]\<rparr>"


section \<open>Properties of the streak bookkeeping\<close>

lemma unlock_streak [simp]: "streak (unlock a u) = streak u"
  by (simp add: unlock_def)

lemma unlock_lastRecordDate [simp]: "lastRecordDate (unlock a u) = lastRecordDate u"
  by (simp add: unlock_def)

lemma unlock_member [simp]: "a \<in> set (achievements (unlock a u))"
  by (simp add: unlock_def)

lemma unlock_count_other:
  "b \<noteq> a \<Longrightarrow> count_list (achievements (unlock a u)) b = count_list (achievements u) b"
  by (simp add: unlock_def)

lemma unlock_count_member:
  "b \<in> set (achievements u) \<Longrightarrow>
   count_list (achievements (unlock a u)) b = count_list (achievements u) b"
  by (cases "b = a") (simp_all add: unlock_def)

lemma unlock_count_fresh:
  "a \<notin> set (achievements u) \<Longrightarrow> count_list (achievements (unlock a u)) a = 1"
  by (simp add: unlock_def count_list_0_iff)

lemma unlock_mono: "b \<in> set (achievements u) \<Longrightarrow> b \<in> set (achievements (unlock a u))"
  by (simp add: unlock_def)

text \<open>
  The streak law on the two update blocks: a last-record day equal to yesterday
  adds exactly 1 to the streak; any other last-record day different from today,
  null included, sets the streak to 1; in both cases the last-record day becomes
  today. A last-record day equal to today leaves the whole user document as it
  was.
\<close>

lemma streak_blocks:
  "(lastRecordDate u = Some today \<longrightarrow>
      webhook_update_streak today yesterday u = u \<and>
      simulate_update_streak today yesterday u = u) \<and>
   (lastRecordDate u \<noteq> Some today \<longrightarrow>
      streak (webhook_update_streak today yesterday u)
        = (if lastRecordDate u = Some yesterday then streak u + 1 else 1) \<and>
      streak (simulate_update_streak today yesterday u)
        = (if lastRecordDate u = Some yesterday then streak u + 1 else 1) \<and>
      lastRecordDate (webhook_update_streak today yesterday u) = Some today \<and>
      lastRecordDate (simulate_update_streak today yesterday u) = Some today)"
  by (simp add: webhook_update_streak_def simulate_update_streak_def Let_def)

lemma update_streak_lineUserId [simp]:
  "lineUserId (webhook_update_streak today yesterday u) = lineUserId u"
  "lineUserId (simulate_update_streak today yesterday u) = lineUserId u"
  by (simp_all add: webhook_update_streak_def simulate_update_streak_def Let_def unlock_def)

text \<open>
  Supporting facts for the threshold badges on the second \<^verbatim>\<open>/webhook\<close> handler:
  a day that brings the streak to 7 (to 30) leaves exactly one \<open>week_streak\<close>
  (\<open>month_streak\<close>) entry when there was none, and the list as it was, up to
  \<open>first_record\<close>, when the badge was there already.
\<close>

lemma webhook_week_streak_unlocked:
  assumes "lastRecordDate u \<noteq> Some today"
    and "streak (webhook_update_streak today yesterday u) = 7"
    and "''week_streak'' \<notin> set (achievements u)"
  shows "count_list (achievements (webhook_update_streak today yesterday u)) ''week_streak'' = 1"
  using assms
  by (auto simp add: webhook_update_streak_def Let_def unlock_def count_list_0_iff
      split: if_splits)

lemma webhook_month_streak_unlocked:
  assumes "lastRecordDate u \<noteq> Some today"
    and "streak (webhook_update_streak today yesterday u) = 30"
    and "''month_streak'' \<notin> set (achievements u)"
  shows "count_list (achievements (webhook_update_streak today yesterday u)) ''month_streak'' = 1"
  using assms
  by (auto simp add: webhook_update_streak_def Let_def unlock_def count_list_0_iff
      split: if_splits)

text \<open>
  C3. The claim asks every update path to unlock \<open>month_streak\<close> when the streak
  reaches 30. The simulator path does not: a user on day 29 who records on the
  next day reaches streak 30 there with the achievement list unchanged, while the
  \<^verbatim>\<open>/webhook\<close> block appends \<open>month_streak\<close> on the same input.
\<close>

theorem simulate_misses_month_streak:
  "streak (simulate_update_streak ''2025-01-10'' ''2025-01-09'' user_day29) = 30 \<and>
   achievements (simulate_update_streak ''2025-01-10'' ''2025-01-09'' user_day29)
     = [''first_record'', ''week_streak''] \<and>
   achievements (webhook_update_streak ''2025-01-10'' ''2025-01-09'' user_day29)
     = [''first_record'', ''week_streak'', ''month_streak'']"
  by (simp add: simulate_update_streak_def webhook_update_streak_def Let_def unlock_def
      user_day29_def)

text \<open>
  C9. Unlocking an achievement that the user already holds is a no-op: the guarded
  push returns the user unchanged, and neither streak update path changes the
  number of entries of an id that was already in the list, so no duplicate is
  ever appended.
\<close>

theorem unlock_idempotent:
  assumes "a \<in> set (achievements u)"
  shows "unlock a u = u \<and>
    count_list (achievements (webhook_update_streak today yesterday u)) a
      = count_list (achievements u) a \<and>
    count_list (achievements (simulate_update_streak today yesterday u)) a
      = count_list (achievements u) a"
proof -
  have 1: "unlock a u = u"
    using assms by (simp add: unlock_def)
  have keep: "\<And>b v. a \<in> set (achievements v) \<Longrightarrow>
      count_list (achievements (unlock b v)) a = count_list (achievements v) a"
    by (rule unlock_count_member)
  have 2: "count_list (achievements (webhook_update_streak today yesterday u)) a
      = count_list (achievements u) a"
    using assms
    by (simp add: webhook_update_streak_def Let_def keep unlock_mono)
  have 3: "count_list (achievements (simulate_update_streak today yesterday u)) a
      = count_list (achievements u) a"
    using assms
    by (simp add: simulate_update_streak_def Let_def keep unlock_mono)
  from 1 2 3 show ?thesis by simp
qed

theorem unlock_idempotent_witness:
  "''first_record'' \<in> set (achievements demo_user) \<and>
   unlock ''first_record'' demo_user = demo_user \<and>
   count_list (achievements (webhook_update_streak ''2025-01-10'' ''2025-01-09'' demo_user))
     ''first_record'' = 1"
proof -
  have h: "''first_record'' \<in> set (achievements demo_user)"
    by (simp add: demo_user_def)
  have c: "count_list (achievements demo_user) ''first_record'' = 1"
    by (simp add: demo_user_def)
  from unlock_idempotent [OF h, of "''2025-01-10''" "''2025-01-09''"] h c
  show ?thesis by simp
qed


section \<open>Evaluation on concrete inputs\<close>

lemmas str_defs = js_def is_digit_def is_space_def is_line_terminator_def trim_def
  lower_unit_def plain_unit_def toLowerCase_def is_amount_char_def

lemma bits_0 [simp]: "bits 0 = 0"
  by (simp add: bits.simps [of 0])

lemma bits_Suc_0 [simp]: "bits (Suc 0) = Suc 0"
  by (simp add: bits.simps [of "Suc 0"])

lemma bits_numeral [simp]:
  "bits 1 = 1"
  "bits (numeral Num.One) = 1"
  "bits (numeral (Num.Bit0 n)) = Suc (bits (numeral n))"
  "bits (numeral (Num.Bit1 n)) = Suc (bits (numeral n))"
  by (simp_all add: bits.simps [of "numeral (Num.Bit0 n)"] bits.simps [of "numeral (Num.Bit1 n)"])

lemmas number_defs = parseFloat_def digits_value_def double_of_fraction_def
  round_half_even_def

text \<open>
  A whole amount below \<open>2 ^ 53\<close> is a double: it is stored as it is written.
\<close>

lemma bits_bounds: "0 < n \<Longrightarrow> 2 ^ (bits n - 1) \<le> n \<and> n < 2 ^ bits n"
proof (induction n rule: bits.induct)
  case (1 n)
  show ?case
  proof (cases "n div 2 = 0")
    case True
    with 1(2) have "n = 1" by (simp add: div_eq_0_iff)
    then show ?thesis by simp
  next
    case False
    with 1 have ih: "2 ^ (bits (n div 2) - 1) \<le> n div 2" "n div 2 < 2 ^ bits (n div 2)"
      by simp_all
    from False have pos: "0 < bits (n div 2)"
      by (simp add: bits.simps [of "n div 2"])
    have b: "bits n = Suc (bits (n div 2))"
      using 1(2) by (simp add: bits.simps [of n])
    have "(2::nat) ^ (bits n - 1) = 2 * 2 ^ (bits (n div 2) - 1)"
      using pos by (simp add: b power_Suc [symmetric] del: power_Suc)
    also have "\<dots> \<le> 2 * (n div 2)" using ih(1) by simp
    also have "\<dots> \<le> n" by simp
    finally have lo: "2 ^ (bits n - 1) \<le> n" .
    have "n < 2 * (n div 2 + 1)" by simp
    also have "\<dots> \<le> 2 * 2 ^ bits (n div 2)" using ih(2) by simp
    also have "\<dots> = 2 ^ bits n" by (simp add: b)
    finally show ?thesis using lo by simp
  qed
qed

lemma round_half_even_whole: "round_half_even n 1 = n" "round_half_even n (Suc 0) = n"
  by (simp_all add: round_half_even_def)

lemma double_of_whole:
  assumes "n < 2 ^ 53"
  shows "double_of_fraction n 1 = Finite (of_nat n)"
proof (cases "n = 0")
  case True
  then show ?thesis by (simp add: double_of_fraction_def)
next
  case False
  then have pos: "0 < n" by simp
  from bits_bounds [OF pos] have lo: "2 ^ (bits n - 1) \<le> n" and hi: "n < 2 ^ bits n"
    by simp_all
  from hi pos obtain m where m: "bits n = Suc m"
    by (cases "bits n") simp_all
  from lo m have lo': "2 ^ m \<le> n" by simp
  with assms have "(2::nat) ^ m < 2 ^ 53" by simp
  then have le: "m < 53" by (simp only: power_strict_increasing_iff)
  have k: "int (bits n) - int (bits 1) = int m"
    by (simp add: m)
  have e2: "(if (if 0 \<le> int m then 1 * 2 ^ nat (int m) \<le> n else 1 \<le> n * 2 ^ nat (- int m))
             then int m else int m - 1) = int m"
    using lo' by simp
  have p: "max (int m - 52) (- 1074) = int m - 52"
    by simp
  have df: "double_of_fraction n 1 =
      (if 0 \<le> int m - 52
       then (let v = round_half_even n (1 * 2 ^ nat (int m - 52)) * 2 ^ nat (int m - 52)
             in if 2 ^ 1024 \<le> v then Infinity else Finite (of_nat v))
       else Finite (of_nat (round_half_even (n * 2 ^ nat (- (int m - 52))) 1)
                    / 2 ^ nat (- (int m - 52))))"
    unfolding double_of_fraction_def Let_def k e2 p using False by simp
  show ?thesis
  proof (cases "m = 52")
    case True
    have "\<not> (2::nat) ^ 1024 \<le> n"
      using assms by simp
    then show ?thesis
      unfolding df by (simp add: True round_half_even_whole Let_def)
  next
    case nz: False
    with le have "\<not> 0 \<le> int m - 52" by simp
    then show ?thesis
      unfolding df by (simp add: round_half_even_whole)
  qed
qed

lemma parseFloat_whole:
  assumes "ds \<noteq> []" "list_all is_digit ds" "digits_value ds < 2 ^ 53"
  shows "parseFloat ds = Finite (of_nat (digits_value ds))"
proof -
  from assms(2) have 1: "takeWhile is_digit ds = ds" and 2: "dropWhile is_digit ds = []"
    by (simp_all add: list_all_iff)
  have "parseFloat ds = double_of_fraction (digits_value ds) 1"
    unfolding parseFloat_def Let_def 1 2 using assms(1) by simp
  with double_of_whole [OF assms(3)] show ?thesis by simp
qed

lemmas handleEvent_defs = handleEvent_def smart_input_def extract_amount_def numberPattern_def
  number_defs infer_type_def strip_keyword_def incomeKeywords_def
  expenseKeywords_def clean_item_name_def common_prefixes_def category_name_of_def
  name_others_def find_category_def is_catch_all_def command_summary_def

lemma upt_28:
  "[0..<28] = [0, 1, 2, 3, 4, 5, 6, 7, 8, 9, 10, 11, 12, 13, 14, 15, 16, 17, 18, 19, 20, 21,
     22, 23, 24, 25, 26, 27]"
  by (simp add: upt_rec)

lemma default_categories_7:
  "createDefaultCategories env0 7 =
     map (\<lambda>(i, n, t). \<lparr>cat_id = i, cat_groupId = 7, cat_name = n, cat_type = t\<rparr>)
       [(100, [0xE2D, 0xE32, 0xE2B, 0xE32, 0xE23], Expense),
        (101, [0xE0A, 0xE32, 0xE19, 0xE21, 0x2F, 0xE01, 0xE32, 0xE41, 0xE1F], Expense),
        (102, [0xE40, 0xE14, 0xE25, 0xE34, 0xE40, 0xE27, 0xE2D, 0xE23, 0xE35, 0xE48], Expense),
        (103, [0xE0A, 0xE49, 0xE2D, 0xE1B, 0xE1B, 0xE34, 0xE49, 0xE07], Expense),
        (104, [0xE02, 0xE2D, 0xE07, 0xE2D, 0xE2D, 0xE19, 0xE44, 0xE25, 0xE19, 0xE4C], Expense),
        (105, [0x53, 0x6B, 0x69, 0x6E, 0x63, 0x61, 0x72, 0x65], Expense),
        (106, [0xE1A, 0xE31, 0xE19, 0xE40, 0xE17, 0xE34, 0xE07], Expense),
        (107, [0xE40, 0xE01, 0xE21], Expense),
        (108, [0xE2A, 0xE15, 0xE23, 0xE35, 0xE21, 0xE21, 0xE34, 0xE48, 0xE07], Expense),
        (109, [0xE04, 0xE2D, 0xE19, 0xE40, 0xE2A, 0xE34, 0xE23, 0xE4C, 0xE15], Expense),
        (110, [0xE40, 0xE14, 0xE34, 0xE19, 0xE17, 0xE32, 0xE07], Expense),
        (111, [0x47, 0x72, 0x61, 0x62, 0x2F, 0x42, 0x6F, 0x6C, 0x74], Expense),
        (112, [0xE04, 0xE48, 0xE32, 0xE40, 0xE19, 0xE47, 0xE15, 0x2F, 0xE42, 0xE17, 0xE23], Expense),
        (113, [0xE04, 0xE48, 0xE32, 0xE1A, 0xE49, 0xE32, 0xE19], Expense),
        (114, [0xE04, 0xE48, 0xE32, 0xE19, 0xE49, 0xE33, 0x2D, 0xE44, 0xE1F], Expense),
        (115, [0xE2A, 0xE38, 0xE02, 0xE20, 0xE32, 0xE1E], Expense),
        (116, [0xE01, 0xE32, 0xE23, 0xE28, 0xE36, 0xE01, 0xE29, 0xE32], Expense),
        (117, [0xE2A, 0xE31, 0xE15, 0xE27, 0xE4C, 0xE40, 0xE25, 0xE35, 0xE49, 0xE22, 0xE07], Expense),
        (118, [0x4D, 0x65, 0x72, 0x63, 0x68, 0x2F, 0x49, 0x64, 0x6F, 0x6C], Expense),
        (119, [0xE2D, 0xE37, 0xE48, 0xE19, 0xE46], Expense),
        (120, [0xE40, 0xE07, 0xE34, 0xE19, 0xE40, 0xE14, 0xE37, 0xE2D, 0xE19], Income),
        (121, [0xE42, 0xE1A, 0xE19, 0xE31, 0xE2A], Income),
        (122, [0x46, 0x72, 0x65, 0x65, 0x6C, 0x61, 0x6E, 0x63, 0x65], Income),
        (123, [0xE02, 0xE32, 0xE22, 0xE02, 0xE2D, 0xE07], Income),
        (124, [0xE25, 0xE07, 0xE17, 0xE38, 0xE19, 0x2F, 0x43, 0x72, 0x79, 0x70, 0x74, 0x6F], Income),
        (125, [0xE23, 0xE32, 0xE22, 0xE44, 0xE14, 0xE49, 0xE40, 0xE2A, 0xE23, 0xE34, 0xE21], Income),
        (126, [0xE40, 0xE07, 0xE34, 0xE19, 0xE1E, 0xE48, 0xE2D, 0xE41, 0xE21, 0xE48], Income),
        (127, [0xE2D, 0xE37, 0xE48, 0xE19, 0xE46], Income)]"
  by (simp add: createDefaultCategories_def defaultCategories_expense_def
      defaultCategories_income_def env0_def upt_28)

lemma env0_fields:
  "env_todayStr env0 = ''2025-01-10''"
  "env_yesterdayStr env0 = ''2025-01-09''"
  "env_caseTable env0 = (\<lambda>p r. map latin1_lower r)"
  "env_regexEngine env0 = engine0"
  "env_caselessOccurs env0 = (\<lambda>k s. includes_js (map latin1_lower s) (map latin1_lower k))"
  by (simp_all add: env0_def)

lemma find_demo_user:
  "find (\<lambda>u. lineUserId u = ''U1001'') (users db_default) = Some demo_user"
  by (simp add: db_default_def demo_user_def)

section \<open>The patterns on sample texts\<close>

text \<open>
  What the pattern functions return on texts that exercise their corners: a comma
  inside and outside a number, a point without digits behind it, a second number
  in the text, white space of several code units, a line break, letter case.
\<close>

lemma numberPattern_samples:
  "numberPattern (js ''food 1,250.50 x'') = Some (js ''food '', js ''1,250.50'', js '' x'')"
  "numberPattern (js ''a.5'') = Some (js ''a.'', js ''5'', [])"
  "numberPattern (js ''5. x'') = Some ([], js ''5'', js ''. x'')"
  "numberPattern (js ''no, thanks'') = Some (js ''no'', js '','', js '' thanks'')"
  "numberPattern (js ''thanks'') = None"
  by (simp_all add: numberPattern_def str_defs)

lemma parseFloat_samples:
  "parseFloat (js ''50'') = Finite 50"
  "parseFloat (js ''1250.50'') = Finite (2501 / 2)"
  "parseFloat (js ''12.'') = Finite 12"
  "parseFloat (js ''.5'') = Finite (1 / 2)"
  "parseFloat (js ''0'') = Finite 0"
  "parseFloat (js ''0.1'') = Finite (3602879701896397 / 36028797018963968)"
  "parseFloat (js ''9007199254740993'') = Finite 9007199254740992"
  "parseFloat [] = NaN"
  by (simp_all add: number_defs str_defs Let_def)

text \<open>
  A one followed by 309 zeros is more than every double: the amount is
  \<^verbatim>\<open>Infinity\<close>.
\<close>

lemma parseFloat_overflow: "parseFloat (0x31 # replicate 309 0x30) = Infinity"
proof -
  have dv: "digits_value (0x31 # replicate n 0x30) = 10 ^ n" for n
  proof -
    have "foldl (\<lambda>a c. 10 * a + (c - 0x30)) x (replicate n (0x30::nat)) = x * 10 ^ n" for x :: nat
      by (induction n arbitrary: x) simp_all
    then show ?thesis by (simp add: digits_value_def)
  qed
  have tw: "takeWhile is_digit (0x31 # replicate 309 0x30) = 0x31 # replicate 309 0x30"
    "dropWhile is_digit (0x31 # replicate 309 0x30) = []"
    by (simp_all add: is_digit_def)
  have b: "bits (10 ^ 309) = 1027"
    by simp
  show ?thesis
    unfolding parseFloat_def tw Let_def
    by (simp add: dv double_of_fraction_def round_half_even_def b)
qed

lemma smart_regex_samples:
  "smart_regex (js ''a 1 2 b'') = Some (js ''a'', js ''1'', Some (js ''2 b''))"
  "smart_regex (js ''coffee  45.5   iced'') = Some (js ''coffee'', js ''45.5'', Some (js ''iced''))"
  "smart_regex (js ''top 10 50'') = Some (js ''top'', js ''10'', Some (js ''50''))"
  "smart_regex (js ''x 5.'') = None"
  "smart_regex (js ''food 1,000'') = None"
  "smart_regex (js ''a'' @ [0x0A] @ js ''b 5'') = None"
  "smart_regex (js ''a 5 b'' @ [0x0A] @ js ''c'') = None"
  "smart_regex (js ''5'') = None"
  by (simp_all add: smart_regex_def lazy_dot_plus_def smart_tail_def note_tail_def str_defs)

lemma verb_name_amount_samples:
  "verb_name_amount verb_set_budget (verb_set_budget @ js '' tea 500'')
     = Some (js ''tea'', js ''500'')"
  "verb_name_amount verb_set_budget (verb_set_budget @ js ''   500'')
     = Some (js '' '', js ''500'')"
  "verb_name_amount verb_set_budget (verb_set_budget @ js '' a 1 2'')
     = Some (js ''a 1'', js ''2'')"
  "verb_name_amount verb_set_budget (verb_set_budget @ js '' tea 500.5'') = None"
  "verb_name_amount verb_set_budget (verb_set_budget @ js ''tea 500'') = None"
  "verb_name_amount verb_set_budget (verb_set_budget @ js '' 500'') = None"
  by (simp_all add: verb_name_amount_def verb_set_budget_def spaces_then_def
      lazy_dot_plus_def amount_tail_def str_defs)

lemma moodMatch_noteMatch_samples:
  "moodMatch (js ''mood 5'') = Some 0x35"
  "moodMatch (js ''mood5'') = Some 0x35"
  "moodMatch (js ''mood 10'') = None"
  "noteMatch (js ''NOTE  x y'') = Some (js ''x y'')"
  "noteMatch (js ''note'') = None"
  "noteMatch (js ''notes x'') = None"
  by (simp_all add: moodMatch_def noteMatch_def spaces_then_def rest_of_line_def str_defs)

section \<open>Properties of \<open>handleEvent\<close>\<close>

lemma dropWhile_all: "\<forall>x\<in>set s. P x \<Longrightarrow> dropWhile P s = []"
  by (induction s) simp_all

lemma trim_snoc_space:
  assumes "is_space c"
  shows "trim (s @ [c]) = trim s"
proof (cases "\<forall>x\<in>set s. is_space x")
  case True
  then have 1: "dropWhile is_space s = []"
    by (rule dropWhile_all)
  from True assms have 2: "dropWhile is_space (s @ [c]) = []"
    by (intro dropWhile_all) simp
  show ?thesis unfolding trim_def 1 2 ..
next
  case False
  then obtain x where "x \<in> set s" "\<not> is_space x" by auto
  then have "dropWhile is_space (s @ [c]) = dropWhile is_space s @ [c]"
    by (rule dropWhile_append1)
  then show ?thesis using assms by (simp add: trim_def)
qed

lemma trim_id:
  assumes "s \<noteq> []" "\<not> is_space (hd s)" "\<not> is_space (last s)"
  shows "trim s = s"
proof -
  from assms(1,2) have 1: "dropWhile is_space s = s"
    by (cases s) simp_all
  from assms(1,3) have 2: "dropWhile is_space (rev s) = rev s"
    by (cases s rule: rev_cases) simp_all
  show ?thesis unfolding trim_def 1 2 by simp
qed

lemma includes_js_set: "includes_js s k \<Longrightarrow> set k \<subseteq> set s"
proof (induction s)
  case Nil
  then show ?case by simp
next
  case (Cons a s)
  from Cons.prems have "prefix k (a # s) \<or> includes_js s k" by simp
  then show ?case
  proof
    assume "prefix k (a # s)"
    then show ?thesis by (rule set_mono_prefix)
  next
    assume "includes_js s k"
    with Cons.IH show ?thesis by auto
  qed
qed

lemma numberPattern_cases:
  obtains (none) "numberPattern s = None" "\<forall>c\<in>set s. \<not> is_amount_char c"
  | (whole) run r1 where
      "numberPattern s = Some (takeWhile (\<lambda>c. \<not> is_amount_char c) s, run, r1)"
      "run \<noteq> []" "\<forall>c\<in>set run. is_amount_char c"
  | (frac) run fd r3 where
      "numberPattern s = Some (takeWhile (\<lambda>c. \<not> is_amount_char c) s, run @ [0x2E] @ fd, r3)"
      "run \<noteq> []" "\<forall>c\<in>set run. is_amount_char c" "fd \<noteq> []" "\<forall>c\<in>set fd. is_digit c"
proof -
  define r where "r = dropWhile (\<lambda>c. \<not> is_amount_char c) s"
  define run where "run = takeWhile is_amount_char r"
  define r1 where "r1 = dropWhile is_amount_char r"
  have np: "numberPattern s =
      (if r = [] then None
       else (case r1 of
               [] \<Rightarrow> Some (takeWhile (\<lambda>c. \<not> is_amount_char c) s, run, [])
             | c # r2 \<Rightarrow>
                 if c = 0x2E \<and> takeWhile is_digit r2 \<noteq> []
                 then Some (takeWhile (\<lambda>c. \<not> is_amount_char c) s,
                            run @ [0x2E] @ takeWhile is_digit r2, dropWhile is_digit r2)
                 else Some (takeWhile (\<lambda>c. \<not> is_amount_char c) s, run, r1)))"
    unfolding numberPattern_def r_def run_def r1_def Let_def ..
  have run_chars: "\<forall>c\<in>set run. is_amount_char c"
    unfolding run_def by (auto dest: set_takeWhileD)
  show thesis
  proof (cases "r = []")
    case True
    then have "\<forall>c\<in>set s. \<not> is_amount_char c"
      unfolding r_def by (induction s) (simp_all split: if_splits)
    with True np none show thesis by simp
  next
    case False
    then have "is_amount_char (hd r)"
      unfolding r_def using hd_dropWhile [of "\<lambda>c. \<not> is_amount_char c" s] by simp
    with False have run_ne: "run \<noteq> []"
      unfolding run_def by (cases r) simp_all
    show thesis
    proof (cases r1)
      case Nil
      with False np have "numberPattern s = Some (takeWhile (\<lambda>c. \<not> is_amount_char c) s, run, [])"
        by simp
      with run_ne run_chars whole show thesis by blast
    next
      case (Cons c r2)
      show thesis
      proof (cases "c = 0x2E \<and> takeWhile is_digit r2 \<noteq> []")
        case True
        with False np Cons have
          "numberPattern s = Some (takeWhile (\<lambda>c. \<not> is_amount_char c) s,
              run @ [0x2E] @ takeWhile is_digit r2, dropWhile is_digit r2)"
          by simp
        moreover have "\<forall>c\<in>set (takeWhile is_digit r2). is_digit c"
          by (auto dest: set_takeWhileD)
        ultimately show thesis using run_ne run_chars True frac by blast
      next
        case nofrac: False
        with False np Cons have
          "numberPattern s = Some (takeWhile (\<lambda>c. \<not> is_amount_char c) s, run, r1)"
          by auto
        with run_ne run_chars whole show thesis by blast
      qed
    qed
  qed
qed

lemma numberPattern_match:
  assumes "numberPattern s = Some (b, m, a)"
  shows "m \<noteq> [] \<and> (\<forall>c\<in>set m. is_amount_char c \<or> c = 0x2E)"
proof (cases s rule: numberPattern_cases)
  case none
  with assms show ?thesis by simp
next
  case (whole run r1)
  with assms show ?thesis by auto
next
  case (frac run fd r3)
  with assms have "m = run @ [0x2E] @ fd" by simp
  with frac show ?thesis by (auto simp add: is_amount_char_def)
qed

lemma numberPattern_append:
  assumes "\<forall>c\<in>set pre. \<not> is_amount_char c"
  shows "numberPattern (pre @ s) = map_option (\<lambda>(b, m, a). (pre @ b, m, a)) (numberPattern s)"
proof -
  have 1: "takeWhile (\<lambda>c. \<not> is_amount_char c) (pre @ s) = pre @ takeWhile (\<lambda>c. \<not> is_amount_char c) s"
    using assms by simp
  have 2: "dropWhile (\<lambda>c. \<not> is_amount_char c) (pre @ s) = dropWhile (\<lambda>c. \<not> is_amount_char c) s"
    using assms by simp
  define r1 where "r1 = dropWhile is_amount_char (dropWhile (\<lambda>c. \<not> is_amount_char c) s)"
  show ?thesis
    unfolding numberPattern_def 1 2 Let_def r1_def [symmetric]
    by (cases r1) simp_all
qed

lemma infer_type_ok:
  assumes "0x2B \<notin> set text"
  shows "\<exists>ty item. infer_type text twn = Inr (ty, item)"
proof -
  have nk: "k \<noteq> [0x2B]" if "includes_js text k" for k
    using includes_js_set [OF that] assms by auto
  show ?thesis
  proof (cases "find (includes_js text) incomeKeywords")
    case None
    show ?thesis
    proof (cases "find (includes_js text) expenseKeywords")
      case n2: None
      with None show ?thesis by (simp add: infer_type_def)
    next
      case (Some k)
      then have "includes_js text k" by (auto simp add: find_Some_iff)
      then have "k \<noteq> [0x2B]" by (rule nk)
      with None Some show ?thesis by (simp add: infer_type_def strip_keyword_def)
    qed
  next
    case (Some k)
    then have "includes_js text k" by (auto simp add: find_Some_iff)
    then have "k \<noteq> [0x2B]" by (rule nk)
    with Some show ?thesis by (simp add: infer_type_def strip_keyword_def)
  qed
qed

lemma toLowerCase_plain:
  assumes "list_all plain_unit s"
  shows "toLowerCase e s = map lower_unit s"
proof -
  from assms have 1: "takeWhile plain_unit s = s" and 2: "dropWhile plain_unit s = []"
    by (simp_all add: list_all_iff)
  show ?thesis
    unfolding toLowerCase_def Let_def 1 2 by simp
qed

lemma toLowerCase_plain_prefix:
  assumes "list_all plain_unit p"
  shows "\<exists>x. toLowerCase e (p @ r) = map lower_unit p @ x"
proof -
  from assms have "takeWhile plain_unit (p @ r) = p @ takeWhile plain_unit r"
    by (simp add: list_all_iff)
  then show ?thesis
    by (simp add: toLowerCase_def Let_def)
qed

lemma find_category_exact:
  assumes "twn \<noteq> []"
    and "find (\<lambda>c. toLowerCase e (cat_name c) = toLowerCase e twn) cats = Some c"
  shows "find_category e ty cn twn cats = (Some c, cat_type c)"
  using assms by (simp add: find_category_def Let_def)

lemma handleEvent_registered:
  assumes "find (\<lambda>u. lineUserId u = userId) (users d) = Some u"
  shows "handleEvent e (TextMessage userId raw) d =
    (if toLowerCase e (trim raw) \<in> set command_summary then (SummaryFlex, d)
     else smart_input e u (trim raw) d)"
  using assms by (simp add: handleEvent_def Let_def)

lemma amount_char_plain: "is_amount_char c \<or> c = 0x2E \<Longrightarrow> \<not> is_space c \<and> c \<noteq> 0x2B \<and> c \<noteq> 0x20"
  by (auto simp add: is_amount_char_def is_digit_def is_space_def)


lemma smart_input_frame:
  assumes "smart_input e u text d = (r, d')"
  shows "users d' = users d \<and> groups d' = groups d \<and> categories d' = categories d \<and>
   (case r of RecordedFlex t c \<Rightarrow> transactions d' = transactions d @ [t]
            | _ \<Rightarrow> transactions d' = transactions d)"
proof (cases "extract_amount text")
  case None
  with assms show ?thesis by (simp add: smart_input_def)
next
  case (Some p)
  obtain rawAmount twn where p: "p = (rawAmount, twn)" by (cases p)
  show ?thesis
  proof (cases "infer_type text twn")
    case (Inl err)
    with assms Some p show ?thesis by (simp add: smart_input_def)
  next
    case (Inr q)
    obtain ty item where q: "q = (ty, item)" by (cases q)
    define cats where "cats = filter (\<lambda>c. Some (cat_groupId c) = currentGroupId u) (categories d)"
    obtain co ty' where fc:
      "find_category e ty (category_name_of (clean_item_name item)) twn cats = (co, ty')"
      by (cases "find_category e ty (category_name_of (clean_item_name item)) twn cats")
    show ?thesis
    proof (cases co)
      case None
      with assms Some p Inr q fc show ?thesis
        by (simp add: smart_input_def Let_def cats_def)
    next
      case c: (Some c)
      show ?thesis
      proof (cases "rawAmount = NaN")
        case True
        with assms Some p Inr q fc c show ?thesis
          by (simp add: smart_input_def Let_def cats_def)
      next
        case False
        with assms Some p Inr q fc c show ?thesis
          by (auto simp add: smart_input_def Let_def cats_def)
      qed
    qed
  qed
qed

text \<open>
  A text without a digit and without a comma, from a registered user and not the
  summary command, gets no reply and leaves the store as it is.
\<close>

lemma no_number_no_reply:
  assumes "find (\<lambda>u. lineUserId u = userId) (users d) = Some u"
    and "\<forall>c\<in>set (trim raw). \<not> is_amount_char c"
    and "toLowerCase e (trim raw) \<notin> set command_summary"
  shows "handleEvent e (TextMessage userId raw) d = (NoReply, d)"
proof -
  have "numberPattern (trim raw) = None"
  proof (cases "trim raw" rule: numberPattern_cases)
    case none
    then show ?thesis by simp
  next
    case (whole run r1)
    from numberPattern_append [OF assms(2), of "[]"] show ?thesis
      by (simp add: numberPattern_def)
  next
    case (frac run fd r3)
    from numberPattern_append [OF assms(2), of "[]"] show ?thesis
      by (simp add: numberPattern_def)
  qed
  then have "smart_input e u (trim raw) d = (NoReply, d)"
    by (simp add: smart_input_def extract_amount_def)
  with handleEvent_registered [OF assms(1), of e raw] assms(3) show ?thesis by simp
qed

text \<open>
  The exact-name step of \<open>handleEvent\<close>. A registered user sends \<open>label\<close>, a
  space and \<open>amount\<close>, and the text is not the summary command. The label is not
  empty, has no white space at either end and contains no digit, comma or plus
  sign; the amount is a string that the number pattern matches as a whole and
  that is read as a number. If \<open>c\<close> is the first category of the user's active
  wallet, in storage order, whose lower-cased name is the lower-cased label, then
  exactly one Transaction is written; its category is \<open>c\<close> and its type is the
  type of \<open>c\<close>, whatever keywords other than the plus sign the label contains.
\<close>

lemma exact_name_match_first_category:
  assumes user: "find (\<lambda>u. lineUserId u = userId) (users d) = Some u"
    and label: "label \<noteq> []" "\<not> is_space (hd label)" "\<not> is_space (last label)"
    and plain: "\<forall>c\<in>set label. \<not> is_amount_char c \<and> c \<noteq> 0x2B"
    and amount: "numberPattern amount = Some ([], amount, [])"
    and val: "parseFloat (filter (\<lambda>c. c \<noteq> 0x2C) amount) \<noteq> NaN"
    and no_cmd: "toLowerCase e (label @ [0x20] @ amount) \<notin> set command_summary"
    and first: "find (\<lambda>c. toLowerCase e (cat_name c) = toLowerCase e label)
        (filter (\<lambda>c. Some (cat_groupId c) = currentGroupId u) (categories d)) = Some c"
  shows "handleEvent e (TextMessage userId (label @ [0x20] @ amount)) d =
    (let t = \<lparr>tx_groupId = currentGroupId u, tx_userId = lineUserId u, tx_type = cat_type c,
               tx_amount = parseFloat (filter (\<lambda>c. c \<noteq> 0x2C) amount), tx_categoryId = cat_id c,
               tx_date = env_now e, tx_monthStr = env_localMonth e,
               tx_note = label @ [0x20] @ amount\<rparr>
     in (RecordedFlex t c, d\<lparr>transactions := transactions d @ [t]\<rparr>))"
proof -
  let ?text = "label @ 0x20 # amount"
  from numberPattern_match [OF amount]
  have am: "amount \<noteq> []" "\<forall>c\<in>set amount. is_amount_char c \<or> c = 0x2E"
    by simp_all
  then have "is_amount_char (last amount) \<or> last amount = 0x2E"
    by simp
  then have "\<not> is_space (last amount)"
    using amount_char_plain by blast
  with am(1) label have "\<not> is_space (hd ?text)" "\<not> is_space (last ?text)"
    by simp_all
  then have trim_text: "trim ?text = ?text"
    by (intro trim_id) simp_all
  have "\<forall>c\<in>set (label @ [0x20]). \<not> is_amount_char c"
    using plain by (simp add: is_amount_char_def is_digit_def)
  from numberPattern_append [OF this, of amount] amount
  have np: "numberPattern ?text = Some (label @ [0x20], amount, [])"
    by simp
  have "is_space 0x20" by (simp add: is_space_def)
  then have "trim (label @ [0x20]) = trim label"
    by (rule trim_snoc_space)
  also have "\<dots> = label"
    using label by (rule trim_id)
  finally have ea: "extract_amount ?text
      = Some (parseFloat (filter (\<lambda>c. c \<noteq> 0x2C) amount), label)"
    using np by (simp add: extract_amount_def)
  have "0x2B \<notin> set ?text"
    using plain am(2) amount_char_plain by auto
  from infer_type_ok [OF this, of label] obtain ty item
    where it: "infer_type ?text label = Inr (ty, item)" by blast
  have fc: "find_category e ty (category_name_of (clean_item_name item)) label
      (filter (\<lambda>c. Some (cat_groupId c) = currentGroupId u) (categories d)) = (Some c, cat_type c)"
    using label(1) first by (rule find_category_exact)
  have "smart_input e u ?text d =
    (let t = \<lparr>tx_groupId = currentGroupId u, tx_userId = lineUserId u, tx_type = cat_type c,
               tx_amount = parseFloat (filter (\<lambda>c. c \<noteq> 0x2C) amount), tx_categoryId = cat_id c,
               tx_date = env_now e, tx_monthStr = env_localMonth e, tx_note = ?text\<rparr>
     in (RecordedFlex t c, d\<lparr>transactions := transactions d @ [t]\<rparr>))"
    using val by (simp add: smart_input_def ea it fc Let_def)
  with handleEvent_registered [OF user, of e ?text] trim_text no_cmd
  show ?thesis by simp
qed

text \<open>
  C1. The claim promises a Transaction of the category's type for every label
  that is the name of a category, also when the label contains an income
  keyword. The plus sign is the last income keyword (line 395). A label with a
  plus sign and no earlier income keyword makes line 406 build a pattern from the
  plus sign alone; the constructor rejects that pattern (a quantifier with
  nothing to repeat), and the message ends in the \<^verbatim>\<open>catch\<close> block. For the
  expense category \<open>Disney+\<close> and the text \<open>Disney+ 289\<close> the handler answers with
  the error text and writes no Transaction.
\<close>

theorem plus_sign_label_error:
  "\<lparr>cat_id = 201, cat_groupId = 7, cat_name = js ''Disney+'', cat_type = Expense\<rparr>
     \<in> set (categories db_streaming) \<and>
   currentGroupId demo_user = Some 7 \<and>
   find (includes_js (js ''Disney+ 289'')) incomeKeywords = Some [0x2B] \<and>
   infer_type (js ''Disney+ 289'') (js ''Disney+'') = Inl SyntaxError \<and>
   handleEvent env0 (TextMessage ''U1001'' (js ''Disney+ 289'')) db_streaming
     = (ErrorText, db_streaming)"
  by (simp add: handleEvent_defs str_defs db_default_def db_streaming_def demo_user_def
      default_categories_7 Let_def)

text \<open>
  Without a plus sign the exact-name step works: the text \<open>skincare 350\<close>, the
  name of a default expense category in small letters, is recorded under that
  category; and of two categories whose names differ in the case of an accented
  letter, the first in storage order takes the text that names either.
\<close>

lemma accent_sample:
  "toLowerCase env0 [0xC9] = [0xE9] \<and>
   handleEvent env0 (TextMessage ''U1001'' ([0xE9] @ js '' 50'')) db_accent =
     (let t = \<lparr>tx_groupId = Some 7, tx_userId = ''U1001'', tx_type = Expense,
                tx_amount = Finite 50, tx_categoryId = 300, tx_date = env_now env0,
                tx_monthStr = env_localMonth env0, tx_note = [0xE9] @ js '' 50''\<rparr>
      in (RecordedFlex t \<lparr>cat_id = 300, cat_groupId = 7, cat_name = [0xC9],
                           cat_type = Expense\<rparr>,
          db_accent\<lparr>transactions := transactions db_accent @ [t]\<rparr>))"
  by (simp add: handleEvent_defs str_defs db_default_def db_accent_def demo_user_def
      default_categories_7 env0_fields latin1_lower_def Let_def)

lemma exact_name_match_sample:
  "handleEvent env0 (TextMessage ''U1001'' (js ''skincare 350'')) db_default =
     (let t = \<lparr>tx_groupId = Some 7, tx_userId = ''U1001'', tx_type = Expense,
                tx_amount = Finite 350, tx_categoryId = 105, tx_date = env_now env0,
                tx_monthStr = env_localMonth env0, tx_note = js ''skincare 350''\<rparr>
      in (RecordedFlex t \<lparr>cat_id = 105, cat_groupId = 7, cat_name = js ''Skincare'',
                           cat_type = Expense\<rparr>,
          db_default\<lparr>transactions := transactions db_default @ [t]\<rparr>))"
  by (simp add: handleEvent_defs str_defs db_default_def demo_user_def default_categories_7
      Let_def)

text \<open>
  C4. The claim asks for no reply on a text without a number. The chat text
  \<open>hello, world\<close> has no digit, but the number pattern matches its comma:
  \<open>extract_amount\<close> does not return \<open>None\<close>, the early return of line 387 is not
  taken, the amount is \<^verbatim>\<open>NaN\<close>, and the handler answers with the error text.
\<close>

theorem comma_text_gets_reply:
  "extract_amount (js ''hello, world'') = Some (NaN, js ''hello world'') \<and>
   handleEvent env0 (TextMessage ''U1001'' (js ''hello, world'')) db_default
     = (ErrorText, db_default)"
  by (simp add: handleEvent_defs str_defs db_default_def demo_user_def default_categories_7 Let_def)

text \<open>
  C10. For a text message from a registered user, \<open>handleEvent\<close> leaves the users
  (so the sender's streak, last-record date, achievements and saved total), the
  wallets and the categories as they were; the transactions grow by exactly the
  Transaction of the confirmation card when that is the reply, and stay as they
  were for every other reply.
\<close>

theorem handleEvent_writes_no_user:
  assumes "find (\<lambda>u. lineUserId u = userId) (users d) = Some u"
  shows "case handleEvent e (TextMessage userId raw) d of
           (r, d') \<Rightarrow>
             users d' = users d \<and> groups d' = groups d \<and> categories d' = categories d \<and>
             (case r of
                RecordedFlex t c \<Rightarrow> transactions d' = transactions d @ [t]
              | _ \<Rightarrow> transactions d' = transactions d)"
proof (cases "toLowerCase e (trim raw) \<in> set command_summary")
  case True
  with handleEvent_registered [OF assms, of e raw] show ?thesis by simp
next
  case False
  obtain r d' where s: "smart_input e u (trim raw) d = (r, d')"
    by (cases "smart_input e u (trim raw) d")
  from smart_input_frame [OF s] handleEvent_registered [OF assms, of e raw] False s
  show ?thesis by simp
qed

theorem handleEvent_writes_no_user_witness:
  "find (\<lambda>u. lineUserId u = ''U1001'') (users db_default) = Some demo_user \<and>
   users (snd (handleEvent env0 (TextMessage ''U1001'' ([0xE2D, 0xE32, 0xE2B, 0xE32, 0xE23] @ [0x20] @ js ''150'')) db_default))
     = [demo_user] \<and>
   map tx_amount (transactions (snd
     (handleEvent env0 (TextMessage ''U1001'' ([0xE2D, 0xE32, 0xE2B, 0xE32, 0xE23] @ [0x20] @ js ''150'')) db_default))) = [Finite 150]"
proof -
  have "fst (handleEvent env0 (TextMessage ''U1001'' ([0xE2D, 0xE32, 0xE2B, 0xE32, 0xE23] @ [0x20] @ js ''150'')) db_default)
    = RecordedFlex
        \<lparr>tx_groupId = Some 7, tx_userId = ''U1001'', tx_type = Expense, tx_amount = Finite 150,
           tx_categoryId = 100, tx_date = env_now env0, tx_monthStr = env_localMonth env0,
           tx_note = [0xE2D, 0xE32, 0xE2B, 0xE32, 0xE23] @ [0x20] @ js ''150''\<rparr>
        \<lparr>cat_id = 100, cat_groupId = 7, cat_name = [0xE2D, 0xE32, 0xE2B, 0xE32, 0xE23], cat_type = Expense\<rparr>"
    by (simp add: handleEvent_defs str_defs db_default_def demo_user_def default_categories_7 Let_def)
  with handleEvent_writes_no_user [OF find_demo_user, of env0 "[0xE2D, 0xE32, 0xE2B, 0xE32, 0xE23] @ [0x20] @ js ''150''"]
    find_demo_user
  show ?thesis by (simp add: db_default_def split: prod.splits)
qed


section \<open>Properties of the command patterns and of Smart Input by pattern\<close>

lemmas webhook_defs = webhook_second_def active_group_def webhook_route_def verb_name_amount_def
  verb_set_budget_def verb_set_goal_def verb_save_def spaces_then_def lazy_dot_plus_def
  amount_tail_def moodMatch_def noteMatch_def rest_of_line_def webhook_smart_input_def
  smart_regex_def smart_tail_def note_tail_def regexp_i_def is_syntax_char_def save_user_def
  number_defs webhook_update_streak_def unlock_def

lemmas simulate_defs = simulate_line_def active_group_def simulate_route_def
  simulate_smart_input_def smart_regex_def lazy_dot_plus_def smart_tail_def note_tail_def
  regexp_i_def is_syntax_char_def save_user_def number_defs simulate_update_streak_def
  unlock_def

lemmas word_defs = word_travel_def word_taxi_fare_def word_milk_tea_def word_salary_def
  word_food_def word_coffee_def word_special_bonus_def name_milk_tea_coffee_def
  word_buy_odd_things_def

lemma active_group_demo: "active_group ''U1001'' db_default = Some (demo_user, 7)"
  by (simp add: active_group_def db_default_def demo_user_def)

lemma lazy_until_skip:
  assumes "\<forall>i<length xs. tail (drop i xs @ r) = None"
    and "\<forall>c\<in>set xs. \<not> is_line_terminator c"
  shows "lazy_until tail acc (xs @ r) = lazy_until tail (acc @ xs) r"
  using assms
proof (induction xs arbitrary: acc)
  case Nil
  then show ?case by simp
next
  case (Cons x xs)
  from Cons.prems(1) have 0: "tail (x # xs @ r) = None"
    by (metis append_Cons drop0 length_greater_0_conv list.distinct(1))
  have rest: "\<forall>i<length xs. tail (drop i xs @ r) = None"
  proof (intro allI impI)
    fix i assume "i < length xs"
    then have "Suc i < length (x # xs)" by simp
    with Cons.prems(1) have "tail (drop (Suc i) (x # xs) @ r) = None" by blast
    then show "tail (drop i xs @ r) = None" by simp
  qed
  from Cons.prems(2) have nl: "\<not> is_line_terminator x" "\<forall>c\<in>set xs. \<not> is_line_terminator c"
    by simp_all
  have "lazy_until tail acc ((x # xs) @ r) = lazy_until tail (acc @ [x]) (xs @ r)"
    using 0 nl(1) by simp
  also have "\<dots> = lazy_until tail ((acc @ [x]) @ xs) r"
    using rest nl(2) by (rule Cons.IH)
  finally show ?case by simp
qed

lemma takeWhile_stop:
  assumes "\<forall>c\<in>set xs. P c" "ys = [] \<or> \<not> P (hd ys)"
  shows "takeWhile P (xs @ ys) = xs" "dropWhile P (xs @ ys) = ys"
proof -
  from assms(2) have "takeWhile P ys = []" "dropWhile P ys = ys"
    by (cases ys; simp)+
  with assms(1) show "takeWhile P (xs @ ys) = xs" "dropWhile P (xs @ ys) = ys"
    by simp_all
qed

lemma smart_tail_inside_label:
  assumes "l \<noteq> []" "\<not> is_space (last l)" "\<forall>c\<in>set l. \<not> is_digit c"
  shows "smart_tail (l @ rest) = None"
proof -
  from assms(1) have "last l \<in> set l" by simp
  with assms(2) have d: "dropWhile is_space (l @ rest) = dropWhile is_space l @ rest"
    by (intro dropWhile_append1)
  from assms(1,2) have ne: "dropWhile is_space l \<noteq> []"
    using \<open>last l \<in> set l\<close> by (auto simp add: dropWhile_eq_Nil_conv)
  then have "hd (dropWhile is_space l) \<in> set l"
    by (metis hd_in_set set_dropWhileD)
  with assms(3) have "\<not> is_digit (hd (dropWhile is_space l))" by blast
  with ne have "takeWhile is_digit (dropWhile is_space l @ rest) = []"
    by (cases "dropWhile is_space l") simp_all
  then show ?thesis
    unfolding smart_tail_def d by (simp add: Let_def)
qed

lemma not_digit_misc: "\<not> is_digit 0x20" "\<not> is_digit 0x2E" "is_space 0x20" "\<not> is_space 0x2E"
  "is_digit c \<Longrightarrow> \<not> is_space c"
  by (simp_all add: is_digit_def is_space_def)

lemma note_tail_trailing:
  assumes "note \<noteq> [] \<longrightarrow> \<not> is_space (hd note)" "\<forall>c\<in>set note. \<not> is_line_terminator c"
  shows "note_tail (trailing note) = Some (if note = [] then None else Some note)"
proof (cases "note = []")
  case True
  then show ?thesis by (simp add: note_tail_def trailing_def)
next
  case False
  with assms(1) have "takeWhile is_space note = []" "dropWhile is_space note = note"
    by (cases "note"; simp)+
  with False assms(2) show ?thesis
    by (simp add: note_tail_def trailing_def not_digit_misc list_all_iff)
qed

lemma smart_tail_digits:
  assumes "ds \<noteq> []" "list_all is_digit ds" "rest = [] \<or> \<not> is_digit (hd rest)"
  shows "smart_tail (0x20 # ds @ rest) =
    (case (case rest of
             [] \<Rightarrow> (ds, [])
           | c # f \<Rightarrow>
               if c = 0x2E \<and> takeWhile is_digit f \<noteq> []
               then (ds @ [0x2E] @ takeWhile is_digit f, dropWhile is_digit f)
               else (ds, rest)) of
       (amountStr, r3) \<Rightarrow>
         (case note_tail r3 of None \<Rightarrow> None | Some n \<Rightarrow> Some (amountStr, n)))"
proof -
  from assms(1,2) have hd_ds: "\<not> is_space (hd ds)"
    by (cases ds; simp add: not_digit_misc)
  have sp: "takeWhile is_space (0x20 # ds @ rest) = [0x20]"
    "dropWhile is_space (0x20 # ds @ rest) = ds @ rest"
    using assms(1) hd_ds by (cases ds; simp add: not_digit_misc)+
  have dg: "takeWhile is_digit (ds @ rest) = ds" "dropWhile is_digit (ds @ rest) = rest"
    using takeWhile_stop [of ds is_digit rest] assms(2,3)
    by (simp_all add: list_all_iff)
  show ?thesis
    unfolding smart_tail_def Let_def sp dg using assms(1) by simp
qed

lemma smart_tail_amount:
  assumes ds: "ds \<noteq> []" "list_all is_digit ds"
    and dec: "is_fraction dec"
    and trail: "note \<noteq> [] \<longrightarrow> \<not> is_space (hd note)" "\<forall>c\<in>set note. \<not> is_line_terminator c"
  shows "smart_tail (0x20 # ds @ dec @ trailing note)
    = Some (ds @ dec, if note = [] then None else Some note)"
proof -
  have stop: "dec @ trailing note = [] \<or> \<not> is_digit (hd (dec @ trailing note))"
    using dec by (cases dec) (auto simp add: is_fraction_def trailing_def not_digit_misc)
  note st = smart_tail_digits [OF ds stop]
  have nt: "note_tail (trailing note) = Some (if note = [] then None else Some note)"
    using trail by (rule note_tail_trailing)
  show ?thesis
  proof (cases dec)
    case Nil
    show ?thesis
    proof (cases "note = []")
      case True
      then show ?thesis using st Nil by (simp add: trailing_def note_tail_def)
    next
      case False
      then have t: "trailing note = 0x20 # note" by (simp add: trailing_def)
      from nt False have "note_tail (0x20 # note) = Some (Some note)" by (simp add: t)
      then show ?thesis using st Nil False by (simp add: t)
    qed
  next
    case (Cons p fs)
    with dec have p: "p = 0x2E" and fs: "fs \<noteq> []" "list_all is_digit fs"
      by (simp_all add: is_fraction_def)
    have stop2: "trailing note = [] \<or> \<not> is_digit (hd (trailing note))"
      by (simp add: trailing_def not_digit_misc)
    have fg: "takeWhile is_digit (fs @ trailing note) = fs"
      "dropWhile is_digit (fs @ trailing note) = trailing note"
      using takeWhile_stop [of fs is_digit "trailing note"] fs(2) stop2
      by (simp_all add: list_all_iff)
    show ?thesis
      using st nt fs(1) by (simp add: Cons p fg)
  qed
qed

lemma smart_regex_shape:
  assumes label: "label \<noteq> []" "\<not> is_space (last label)"
      "\<forall>c\<in>set label. \<not> is_digit c \<and> \<not> is_line_terminator c"
    and ds: "ds \<noteq> []" "list_all is_digit ds"
    and dec: "is_fraction dec"
    and trail: "note \<noteq> [] \<longrightarrow> \<not> is_space (hd note)" "\<forall>c\<in>set note. \<not> is_line_terminator c"
  shows "smart_regex (label @ [0x20] @ ds @ dec @ trailing note)
    = Some (label, ds @ dec, if note = [] then None else Some note)"
proof -
  obtain x xs where l: "label = x # xs" using label(1) by (cases label) auto
  let ?r = "0x20 # ds @ dec @ trailing note"
  have inside: "\<forall>i<length xs. smart_tail (drop i xs @ ?r) = None"
  proof (intro allI impI)
    fix i assume i: "i < length xs"
    then have "drop i xs \<noteq> []" by simp
    moreover from i have "xs \<noteq> []" by auto
    then have "last (drop i xs) = last label"
      using i l by (simp add: last_drop)
    moreover have "set (drop i xs) \<subseteq> set label"
      using l by (auto dest: in_set_dropD)
    ultimately show "smart_tail (drop i xs @ ?r) = None"
      using label(2,3) by (intro smart_tail_inside_label) auto
  qed
  have nl: "\<forall>c\<in>set xs. \<not> is_line_terminator c" "\<not> is_line_terminator x"
    using label(3) l by simp_all
  have "smart_regex (label @ [0x20] @ ds @ dec @ trailing note)
      = lazy_until smart_tail [x] (xs @ ?r)"
    using nl(2) by (simp add: smart_regex_def lazy_dot_plus_def l)
  also have "\<dots> = lazy_until smart_tail ([x] @ xs) ?r"
    using inside nl(1) by (rule lazy_until_skip)
  also have "\<dots> = Some (label, ds @ dec, if note = [] then None else Some note)"
    using smart_tail_amount [OF ds dec trail] by (simp add: l)
  finally show ?thesis .
qed


lemma double_of_fraction_number: "double_of_fraction a b \<noteq> NaN"
  by (simp add: double_of_fraction_def Let_def)

lemma parseFloat_digits:
  assumes "ds \<noteq> []" "list_all is_digit ds" "rest = [] \<or> \<not> is_digit (hd rest)"
  shows "parseFloat (ds @ rest) \<noteq> NaN"
proof -
  have "takeWhile is_digit (ds @ rest) = ds"
    using takeWhile_stop [of ds is_digit rest] assms(2,3) by (simp add: list_all_iff)
  with assms(1) show ?thesis
    by (simp add: parseFloat_def Let_def double_of_fraction_number)
qed

lemma fraction_stop: "is_fraction dec \<Longrightarrow> dec = [] \<or> \<not> is_digit (hd dec)"
  by (auto simp add: is_fraction_def not_digit_misc)


text \<open>
  The note in the pattern handlers. The text is a label, a space, digits with an
  optional decimal part, and optionally a space and a note. The label is not
  empty, does not end in white space and has no digit or line terminator; the
  note does not start with white space and has no line terminator. When the
  category lookup finds \<open>c\<close> for the label, the second \<^verbatim>\<open>/webhook\<close> handler and
  the simulator write one Transaction whose note is the trailing text (empty
  when there is none), whose amount is the number written and whose type is the
  type of \<open>c\<close>.
\<close>

lemma pattern_note_is_trailing_text:
  assumes label: "label \<noteq> []" "\<not> is_space (last label)"
      "\<forall>c\<in>set label. \<not> is_digit c \<and> \<not> is_line_terminator c"
    and ds: "ds \<noteq> []" "list_all is_digit ds"
    and dec: "is_fraction dec"
    and trail: "note \<noteq> [] \<longrightarrow> \<not> is_space (hd note)" "\<forall>c\<in>set note. \<not> is_line_terminator c"
    and pat: "regexp_i e label = Some matches"
    and cat: "find (\<lambda>c. cat_groupId c = g \<and> matches (cat_name c)) (categories d) = Some c"
  shows
    "(case webhook_smart_input e u g (label @ [0x20] @ ds @ dec @ trailing note) d of
        Inr (RecordedCard t c' s b, d') \<Rightarrow>
          tx_note t = note \<and> tx_amount t = parseFloat (ds @ dec) \<and>
          tx_type t = cat_type c \<and> c' = c \<and> transactions d' = transactions d @ [t]
      | _ \<Rightarrow> False) \<and>
     (case simulate_smart_input e u g (label @ [0x20] @ ds @ dec @ trailing note) d of
        Inr (RecordedCard t c' s b, d') \<Rightarrow>
          tx_note t = note \<and> tx_amount t = parseFloat (ds @ dec) \<and>
          tx_type t = cat_type c \<and> c' = c \<and> transactions d' = transactions d @ [t]
      | _ \<Rightarrow> False)"
proof -
  let ?text = "label @ [0x20] @ ds @ dec @ trailing note"
  have sr: "smart_regex ?text = Some (label, ds @ dec, if note = [] then None else Some note)"
    using label ds dec trail by (rule smart_regex_shape)
  from parseFloat_digits [OF ds fraction_stop [OF dec] ]
  have pf: "parseFloat (ds @ dec) \<noteq> NaN" .
  have nt: "(case (if note = [] then None else Some note) of None \<Rightarrow> [] | Some n \<Rightarrow> n) = note"
    by simp
  have w: "case webhook_smart_input e u g ?text d of
        Inr (RecordedCard t c' s b, d') \<Rightarrow>
          tx_note t = note \<and> tx_amount t = parseFloat (ds @ dec) \<and>
          tx_type t = cat_type c \<and> c' = c \<and> transactions d' = transactions d @ [t]
      | _ \<Rightarrow> False"
    unfolding webhook_smart_input_def sr
    by (simp add: pat cat pf Let_def save_user_def)
  have sm: "case simulate_smart_input e u g ?text d of
        Inr (RecordedCard t c' s b, d') \<Rightarrow>
          tx_note t = note \<and> tx_amount t = parseFloat (ds @ dec) \<and>
          tx_type t = cat_type c \<and> c' = c \<and> transactions d' = transactions d @ [t]
      | _ \<Rightarrow> False"
    unfolding simulate_smart_input_def sr
    by (simp add: pat cat pf Let_def save_user_def)
  from w sm show ?thesis by blast
qed

text \<open>
  The note in \<open>handleEvent\<close>: whatever the message of a registered sender, the
  Transaction that is written has the whole trimmed message as its note.
\<close>

lemma handleEvent_note_is_message:
  assumes "find (\<lambda>v. lineUserId v = userId) (users d) = Some v"
  shows "case handleEvent e (TextMessage userId raw) d of
           (RecordedFlex t c', d') \<Rightarrow> tx_note t = trim raw
         | _ \<Rightarrow> True"
  unfolding handleEvent_registered [OF assms]
  by (auto simp add: smart_input_def Let_def split: option.splits sum.splits prod.splits reply.splits)

text \<open>
  C6. The README documents the grammar \<^verbatim>\<open>LABEL AMOUNT [NOTE]\<close> for \<^verbatim>\<open>POST /webhook\<close>
  with the scenario of the claim: the text made of the category name for travel,
  \<open>50\<close> and a remark on the taxi fare is recorded under the travel category with
  the remark as its note. The handler that does so is the second one registered
  for the route (line 1775), which no request reaches; the route is served by
  \<open>handleEvent\<close> (lines 93-98). On the scenario text \<open>handleEvent\<close> writes an
  expense of 50 whose note is the whole message and whose category is the
  catch-all, because the text without its number is not the name of the travel
  category. The second handler, on the same text and store, does what the claim
  says.
\<close>

theorem scenario_note_is_whole_message:
  "handleEvent env0
      (TextMessage ''U1001'' (word_travel @ [0x20] @ js ''50'' @ [0x20] @ word_taxi_fare))
      db_default =
     (let t = \<lparr>tx_groupId = Some 7, tx_userId = ''U1001'', tx_type = Expense,
                tx_amount = Finite 50, tx_categoryId = 119, tx_date = env_now env0,
                tx_monthStr = env_localMonth env0,
                tx_note = word_travel @ [0x20] @ js ''50'' @ [0x20] @ word_taxi_fare\<rparr>
      in (RecordedFlex t
            \<lparr>cat_id = 119, cat_groupId = 7, cat_name = name_others, cat_type = Expense\<rparr>,
          db_default\<lparr>transactions := [t]\<rparr>)) \<and>
   word_travel @ [0x20] @ js ''50'' @ [0x20] @ word_taxi_fare \<noteq> word_taxi_fare \<and>
   webhook_second env0
      (TextMessage ''U1001'' (word_travel @ [0x20] @ js ''50'' @ [0x20] @ word_taxi_fare))
      db_default =
     (let t = \<lparr>tx_groupId = Some 7, tx_userId = ''U1001'', tx_type = Expense,
                tx_amount = Finite 50, tx_categoryId = 110, tx_date = env_now env0,
                tx_monthStr = env_localMonth env0, tx_note = word_taxi_fare\<rparr>;
          u = demo_user\<lparr>streak := 7, lastRecordDate := Some ''2025-01-10'',
                achievements := [''first_record'', ''week_streak'']\<rparr>
      in Done (RecordedCard t
                 \<lparr>cat_id = 110, cat_groupId = 7, cat_name = word_travel, cat_type = Expense\<rparr>
                 7 2)
              (db_default\<lparr>users := [u], transactions := [t]\<rparr>))"
  by (simp add: handleEvent_defs webhook_defs str_defs word_defs db_default_def demo_user_def
      env0_fields default_categories_7 Let_def)

lemma not_prefix_none: "\<not> prefix verb s \<Longrightarrow> verb_name_amount verb s = None"
  by (simp add: verb_name_amount_def)

lemma route_set_budget:
  assumes "prefix verb_set_budget text" "verb_name_amount verb_set_budget text = None"
  shows "webhook_route (toLowerCase e text) text = SmartInput"
proof -
  from assms(1) obtain rest where T: "text = verb_set_budget @ rest"
    by (auto elim: prefixE)
  have "list_all plain_unit verb_set_budget"
    by (simp add: verb_set_budget_def plain_unit_def)
  from toLowerCase_plain_prefix [OF this, of e rest] obtain x
    where L: "toLowerCase e text = 0xE15 # 0xE31 # 0xE49 # 0xE07 # 0xE07 # 0xE1A # x"
    by (auto simp add: T lower_unit_def verb_set_budget_def)
  have M: "map lower_unit text = 0xE15 # 0xE31 # 0xE49 # 0xE07 # 0xE07 # 0xE1A # map lower_unit rest"
    by (simp add: T lower_unit_def verb_set_budget_def)
  have g: "verb_name_amount verb_set_goal text = None"
    by (rule not_prefix_none) (simp add: T verb_set_goal_def verb_set_budget_def)
  have sv: "verb_name_amount verb_save text = None"
    by (rule not_prefix_none) (simp add: T verb_save_def verb_set_budget_def)
  have m: "moodMatch (toLowerCase e text) = None"
    by (simp add: moodMatch_def L js_def)
  have n: "noteMatch text = None"
    by (simp add: noteMatch_def M js_def)
  show ?thesis
    by (simp add: webhook_route_def L assms(2) g sv m [unfolded L] n js_def)
qed

lemma route_set_goal:
  assumes "prefix verb_set_goal text" "verb_name_amount verb_set_goal text = None"
  shows "webhook_route (toLowerCase e text) text = SmartInput"
proof -
  from assms(1) obtain rest where T: "text = verb_set_goal @ rest"
    by (auto elim: prefixE)
  have "list_all plain_unit verb_set_goal"
    by (simp add: verb_set_goal_def plain_unit_def)
  from toLowerCase_plain_prefix [OF this, of e rest] obtain x
    where L: "toLowerCase e text =
      0xE15 # 0xE31 # 0xE49 # 0xE07 # 0xE40 # 0xE1B # 0xE49 # 0xE32 # x"
    by (auto simp add: T lower_unit_def verb_set_goal_def)
  have M: "map lower_unit text =
      0xE15 # 0xE31 # 0xE49 # 0xE07 # 0xE40 # 0xE1B # 0xE49 # 0xE32 # map lower_unit rest"
    by (simp add: T lower_unit_def verb_set_goal_def)
  have b: "verb_name_amount verb_set_budget text = None"
    by (rule not_prefix_none) (simp add: T verb_set_goal_def verb_set_budget_def)
  have sv: "verb_name_amount verb_save text = None"
    by (rule not_prefix_none) (simp add: T verb_save_def verb_set_goal_def)
  have m: "moodMatch (toLowerCase e text) = None"
    by (simp add: moodMatch_def L js_def)
  have n: "noteMatch text = None"
    by (simp add: noteMatch_def M js_def)
  show ?thesis
    by (simp add: webhook_route_def L assms(2) b sv m [unfolded L] n js_def)
qed

lemma route_save:
  assumes "prefix verb_save text" "verb_name_amount verb_save text = None"
  shows "webhook_route (toLowerCase e text) text = SmartInput"
proof -
  from assms(1) obtain rest where T: "text = verb_save @ rest"
    by (auto elim: prefixE)
  have "list_all plain_unit verb_save"
    by (simp add: verb_save_def plain_unit_def)
  from toLowerCase_plain_prefix [OF this, of e rest] obtain x
    where L: "toLowerCase e text = 0xE2D # 0xE2D # 0xE21 # x"
    by (auto simp add: T lower_unit_def verb_save_def)
  have M: "map lower_unit text = 0xE2D # 0xE2D # 0xE21 # map lower_unit rest"
    by (simp add: T lower_unit_def verb_save_def)
  have b: "verb_name_amount verb_set_budget text = None"
    by (rule not_prefix_none) (simp add: T verb_save_def verb_set_budget_def)
  have g: "verb_name_amount verb_set_goal text = None"
    by (rule not_prefix_none) (simp add: T verb_save_def verb_set_goal_def)
  have m: "moodMatch (toLowerCase e text) = None"
    by (simp add: moodMatch_def L js_def)
  have n: "noteMatch text = None"
    by (simp add: noteMatch_def M js_def)
  show ?thesis
    by (simp add: webhook_route_def L assms(2) b g m [unfolded L] n js_def)
qed

text \<open>
  C8. A text that begins with one of the three \<^verbatim>\<open>VERB NAME AMOUNT\<close> verbs (set
  budget, create goal, add to goal) and that the verb's pattern does not match,
  for want of a final amount, takes no command branch of the second \<^verbatim>\<open>/webhook\<close>
  handler: the route is Smart Input, and what the handler does with the message
  is what Smart Input does with it.
\<close>

theorem malformed_command_falls_through:
  assumes verb: "verb \<in> {verb_set_budget, verb_set_goal, verb_save}"
    and pre: "prefix verb (trim raw)"
    and nomatch: "verb_name_amount verb (trim raw) = None"
    and grp: "active_group userId d = Some (u, g)"
  shows "webhook_route (toLowerCase e (trim raw)) (trim raw) = SmartInput \<and>
         webhook_second e (TextMessage userId raw) d =
           (case webhook_smart_input e u g (trim raw) d of
              Inl err \<Rightarrow> Throws err
            | Inr (r, d') \<Rightarrow> Done r d')"
proof -
  from verb pre nomatch have r: "webhook_route (toLowerCase e (trim raw)) (trim raw) = SmartInput"
    using route_set_budget route_set_goal route_save by auto
  then show ?thesis
    using grp by (simp add: webhook_second_def Let_def)
qed

theorem malformed_command_falls_through_witness:
  "verb_set_budget \<in> {verb_set_budget, verb_set_goal, verb_save} \<and>
   prefix verb_set_budget (trim (verb_set_budget @ [0x20] @ word_milk_tea)) \<and>
   verb_name_amount verb_set_budget (trim (verb_set_budget @ [0x20] @ word_milk_tea)) = None \<and>
   active_group ''U1001'' db_default = Some (demo_user, 7) \<and>
   webhook_second env0 (TextMessage ''U1001'' (verb_set_budget @ [0x20] @ word_milk_tea)) db_default
     = Done NoReply db_default"
proof -
  have t: "trim (verb_set_budget @ [0x20] @ word_milk_tea)
      = verb_set_budget @ [0x20] @ word_milk_tea"
    by (simp add: verb_set_budget_def word_defs str_defs)
  have 1: "prefix verb_set_budget (trim (verb_set_budget @ [0x20] @ word_milk_tea))"
    unfolding t by simp
  have 2: "verb_name_amount verb_set_budget (trim (verb_set_budget @ [0x20] @ word_milk_tea)) = None"
    unfolding t by (simp add: webhook_defs word_defs str_defs)
  have 4: "webhook_smart_input env0 demo_user 7
      (trim (verb_set_budget @ [0x20] @ word_milk_tea)) db_default = Inr (NoReply, db_default)"
    unfolding t by (simp add: webhook_defs word_defs str_defs)
  from malformed_command_falls_through [OF _ 1 2 active_group_demo, of env0] 1 2 active_group_demo 4
  show ?thesis by simp
qed


section \<open>The streak law on the handlers\<close>

lemma active_group_user:
  assumes "active_group userId d = Some (u, g)"
  shows "find (\<lambda>v. lineUserId v = userId) (users d) = Some u" "lineUserId u = userId"
proof -
  from assms show 1: "find (\<lambda>v. lineUserId v = userId) (users d) = Some u"
    by (auto simp add: active_group_def split: option.splits if_splits)
  then show "lineUserId u = userId"
    by (auto simp add: find_Some_iff)
qed

lemma find_saved:
  assumes "find (\<lambda>v. lineUserId v = k) us = Some u" "lineUserId u' = k"
  shows "find (\<lambda>v. lineUserId v = k) (map (\<lambda>v. if lineUserId v = k then u' else v) us) = Some u'"
  using assms by (induction us) (auto split: if_splits)

lemma filter_saved:
  assumes "lineUserId u' = k"
  shows "filter (\<lambda>v. lineUserId v \<noteq> k) (map (\<lambda>v. if lineUserId v = k then u' else v) us)
    = filter (\<lambda>v. lineUserId v \<noteq> k) us"
  using assms by (induction us) auto

lemma webhook_smart_input_recorded:
  assumes "webhook_smart_input e u g text d = Inr (RecordedCard t c s b, d')"
  shows "s = streak (webhook_update_streak (env_todayStr e) (env_yesterdayStr e) u) \<and>
    users d' =
      (if lastRecordDate u \<noteq> Some (env_todayStr e)
       then map (\<lambda>v. if lineUserId v = lineUserId u
                      then webhook_update_streak (env_todayStr e) (env_yesterdayStr e) u else v)
              (users d)
       else users d)"
  using assms
  by (auto simp add: webhook_smart_input_def Let_def save_user_def
      split: option.splits prod.splits if_splits)

lemma simulate_smart_input_recorded:
  assumes "simulate_smart_input e u g text d = Inr (RecordedCard t c s b, d')"
  shows "s = streak (simulate_update_streak (env_todayStr e) (env_yesterdayStr e) u) \<and>
    users d' =
      (if lastRecordDate u \<noteq> Some (env_todayStr e)
       then map (\<lambda>v. if lineUserId v = lineUserId u
                      then simulate_update_streak (env_todayStr e) (env_yesterdayStr e) u else v)
              (users d)
       else users d)"
  using assms
  by (auto simp add: simulate_smart_input_def Let_def save_user_def
      split: option.splits prod.splits if_splits)

lemma webhook_second_recorded:
  assumes "active_group userId d = Some (u, g)"
    and "webhook_second e (TextMessage userId raw) d = Done (RecordedCard t c s b) d'"
  shows "webhook_smart_input e u g (trim raw) d = Inr (RecordedCard t c s b, d')"
  using assms
  by (auto simp add: webhook_second_def Let_def split: route.splits sum.splits prod.splits)

lemma simulate_line_recorded:
  assumes "active_group userId d = Some (u, g)"
    and "simulate_line e userId raw d = Done (RecordedCard t c s b) d'"
  shows "simulate_smart_input e u g (trim raw) d = Inr (RecordedCard t c s b, d')"
  using assms
  by (auto simp add: simulate_line_def Let_def split: route.splits sum.splits prod.splits if_splits)

text \<open>
  C2. Streak law. The sender has a user document \<open>u\<close> and an active wallet, and
  the second \<^verbatim>\<open>/webhook\<close> handler or the simulator classifies the message and
  answers with the confirmation card. If the last-record day of \<open>u\<close> is today,
  the stored users are as they were: no streak, date or achievement of anyone
  changes. Otherwise the stored document of the sender has the streak of \<open>u\<close>
  plus exactly 1 when the last-record day of \<open>u\<close> is yesterday, and streak 1 for
  every other last-record day, null included; its last-record day is today; and
  the documents of all other users are as they were. The card shows the stored
  streak.
\<close>

theorem streak_law:
  assumes grp: "active_group userId d = Some (u, g)"
    and rec: "webhook_second e (TextMessage userId raw) d = Done (RecordedCard t c s b) d' \<or>
              simulate_line e userId raw d = Done (RecordedCard t c s b) d'"
  shows "(lastRecordDate u = Some (env_todayStr e) \<longrightarrow> users d' = users d \<and> s = streak u) \<and>
         (lastRecordDate u \<noteq> Some (env_todayStr e) \<longrightarrow>
            (case find (\<lambda>v. lineUserId v = userId) (users d') of
               None \<Rightarrow> False
             | Some u' \<Rightarrow>
                 streak u' = (if lastRecordDate u = Some (env_yesterdayStr e)
                              then streak u + 1 else 1) \<and>
                 lastRecordDate u' = Some (env_todayStr e) \<and> s = streak u') \<and>
            filter (\<lambda>v. lineUserId v \<noteq> userId) (users d')
              = filter (\<lambda>v. lineUserId v \<noteq> userId) (users d))"
proof -
  note usr = active_group_user [OF grp]
  from rec show ?thesis
  proof
    assume "webhook_second e (TextMessage userId raw) d = Done (RecordedCard t c s b) d'"
    from webhook_smart_input_recorded [OF webhook_second_recorded [OF grp this] ]
    have s: "s = streak (webhook_update_streak (env_todayStr e) (env_yesterdayStr e) u)"
      and us: "users d' =
        (if lastRecordDate u \<noteq> Some (env_todayStr e)
         then map (\<lambda>v. if lineUserId v = userId
                        then webhook_update_streak (env_todayStr e) (env_yesterdayStr e) u else v)
                (users d)
         else users d)"
      by (simp_all add: usr(2))
    let ?u' = "webhook_update_streak (env_todayStr e) (env_yesterdayStr e) u"
    have id: "lineUserId ?u' = userId"
      by (simp add: usr(2))
    show ?thesis
    proof (cases "lastRecordDate u = Some (env_todayStr e)")
      case True
      with s us streak_blocks [of u "env_todayStr e" "env_yesterdayStr e"] show ?thesis
        by simp
    next
      case False
      with us have "find (\<lambda>v. lineUserId v = userId) (users d') = Some ?u'"
        using find_saved [OF usr(1) id] by simp
      moreover from False us have "filter (\<lambda>v. lineUserId v \<noteq> userId) (users d')
          = filter (\<lambda>v. lineUserId v \<noteq> userId) (users d)"
        using filter_saved [OF id] by simp
      ultimately show ?thesis
        using False s streak_blocks [of u "env_todayStr e" "env_yesterdayStr e"]
        by simp
    qed
  next
    assume "simulate_line e userId raw d = Done (RecordedCard t c s b) d'"
    from simulate_smart_input_recorded [OF simulate_line_recorded [OF grp this] ]
    have s: "s = streak (simulate_update_streak (env_todayStr e) (env_yesterdayStr e) u)"
      and us: "users d' =
        (if lastRecordDate u \<noteq> Some (env_todayStr e)
         then map (\<lambda>v. if lineUserId v = userId
                        then simulate_update_streak (env_todayStr e) (env_yesterdayStr e) u else v)
                (users d)
         else users d)"
      by (simp_all add: usr(2))
    let ?u' = "simulate_update_streak (env_todayStr e) (env_yesterdayStr e) u"
    have id: "lineUserId ?u' = userId"
      by (simp add: usr(2))
    show ?thesis
    proof (cases "lastRecordDate u = Some (env_todayStr e)")
      case True
      with s us streak_blocks [of u "env_todayStr e" "env_yesterdayStr e"] show ?thesis
        by simp
    next
      case False
      with us have "find (\<lambda>v. lineUserId v = userId) (users d') = Some ?u'"
        using find_saved [OF usr(1) id] by simp
      moreover from False us have "filter (\<lambda>v. lineUserId v \<noteq> userId) (users d')
          = filter (\<lambda>v. lineUserId v \<noteq> userId) (users d)"
        using filter_saved [OF id] by simp
      ultimately show ?thesis
        using False s streak_blocks [of u "env_todayStr e" "env_yesterdayStr e"]
        by simp
    qed
  qed
qed

text \<open>
  On the default store the sender has a streak of 6 and recorded last on the day
  before: a message on the next day stores a streak of 7 and that day, through
  either handler.
\<close>

theorem streak_law_witness:
  "active_group ''U1001'' db_default = Some (demo_user, 7) \<and>
   lastRecordDate demo_user = Some (env_yesterdayStr env0) \<and>
   (case webhook_second env0 (TextMessage ''U1001'' (word_food @ [0x20] @ js ''150'')) db_default of
      Done (RecordedCard t c s b) d' \<Rightarrow>
        s = 7 \<and> map streak (users d') = [7] \<and>
        map lastRecordDate (users d') = [Some ''2025-01-10'']
    | _ \<Rightarrow> False) \<and>
   (case simulate_line env0 ''U1001'' (word_food @ [0x20] @ js ''150'') db_default of
      Done (RecordedCard t c s b) d' \<Rightarrow>
        s = 7 \<and> map streak (users d') = [7] \<and>
        map lastRecordDate (users d') = [Some ''2025-01-10'']
    | _ \<Rightarrow> False)"
proof -
  let ?t = "\<lparr>tx_groupId = Some 7, tx_userId = ''U1001'', tx_type = Expense,
     tx_amount = Finite 150, tx_categoryId = 100, tx_date = env_now env0,
     tx_monthStr = env_localMonth env0, tx_note = []\<rparr>"
  let ?c = "\<lparr>cat_id = 100, cat_groupId = 7, cat_name = word_food, cat_type = Expense\<rparr>"
  let ?u = "demo_user\<lparr>streak := 7, lastRecordDate := Some ''2025-01-10'',
     achievements := [''first_record'', ''week_streak'']\<rparr>"
  let ?d = "db_default\<lparr>users := [?u], transactions := [?t]\<rparr>"
  have w: "webhook_second env0 (TextMessage ''U1001'' (word_food @ [0x20] @ js ''150'')) db_default
      = Done (RecordedCard ?t ?c 7 2) ?d"
    by (simp add: webhook_defs str_defs word_defs db_default_def demo_user_def
        env0_fields default_categories_7 Let_def)
  have sm: "simulate_line env0 ''U1001'' (word_food @ [0x20] @ js ''150'') db_default
      = Done (RecordedCard ?t ?c 7 2) ?d"
    by (simp add: simulate_defs str_defs word_defs db_default_def demo_user_def
        env0_fields default_categories_7 Let_def)
  have y: "lastRecordDate demo_user = Some (env_yesterdayStr env0)"
    "lastRecordDate demo_user \<noteq> Some (env_todayStr env0)"
    by (simp_all add: demo_user_def env0_fields)
  from streak_law [OF active_group_demo disjI1, OF w] streak_law [OF active_group_demo disjI2, OF sm]
    y active_group_demo w sm
  show ?thesis
    by (simp add: demo_user_def env0_fields db_default_def)
qed

section \<open>Category resolution\<close>







text \<open>
  A label that the engine rejects as a pattern makes the pattern handlers throw:
  there is no reply and nothing is written. With the engine of the examples the
  text \<open>( 50\<close> is such a message.
\<close>

lemma invalid_pattern_throws:
  assumes "smart_regex msg = Some (label, amountStr, remark)" "regexp_i e label = None"
  shows "webhook_smart_input e u g msg d = Inl SyntaxError"
    "simulate_smart_input e u g msg d = Inl SyntaxError"
  using assms by (simp_all add: webhook_smart_input_def simulate_smart_input_def)

lemma invalid_pattern_sample:
  "webhook_second env0 (TextMessage ''U1001'' (js ''( 50'')) db_default = Throws SyntaxError"
  by (simp add: webhook_defs str_defs db_default_def demo_user_def env0_fields engine0_def)









end
